theory Spec2Isabelle
  imports Main
begin

section \<open>Python values, exceptions and the environment of the provider clients\<close>

text \<open>
  The five provider clients (\<^verbatim>\<open>system/apis/*\<close>) exchange JSON documents with the network
  and with their cache directory. A JSON document, and every Python value the clients
  return (\<^verbatim>\<open>None\<close>, lists, dicts, strings, integers), is a value of \<open>json\<close>. A dict is the
  list of its items in insertion order, with distinct keys. Floating-point numbers are
  not modelled. A string is the list of its code points, each below 256 (the type \<open>char\<close>);
  strings with higher code points are outside the model.
\<close>

datatype json =
    JNull
  | JBool bool
  | JInt int
  | JStr string
  | JArr "json list"
  | JObj "(string \<times> json) list"

text \<open>
  The exceptions that escape a client. \<^verbatim>\<open>requests.RequestException\<close> never escapes (every
  fetch sits in a \<^verbatim>\<open>try\<close> that catches it) and so is no constructor here.
\<close>

datatype exc =
    AttributeError | TypeError | KeyError | IndexError | JSONDecodeError
  | ValueError | FileNotFoundError | NotADirectoryError

type_synonym 'a result = "exc + 'a"

text \<open>
  A cache file holds text. \<^verbatim>\<open>json.load\<close> either parses it to a document or raises
  \<^verbatim>\<open>JSONDecodeError\<close>; the text is modelled by that outcome. \<^verbatim>\<open>json.dump\<close> of a document
  writes text that parses back to it. The modification time is in seconds.
\<close>

datatype body = Doc json | Malformed

record cfile =
  stored :: body
  mtime :: int

record request =
  url :: string
  params :: "(string \<times> json) list"

text \<open>
  What \<^verbatim>\<open>session.get\<close> does: it raises a \<^verbatim>\<open>RequestException\<close> (no connection, timeout),
  or returns a response with a status code and a JSON body. A response whose body is not
  JSON is not modelled.
\<close>

datatype outcome = TransportError | Response nat json

text \<open>
  The world a call runs in: the files of the client's cache directory by name, the clock
  (\<^verbatim>\<open>datetime.now()\<close>, in seconds), the network's answer to each request, and two traces:
  the requests sent so far and the messages given to \<^verbatim>\<open>logger.error\<close>.
\<close>

record world =
  files :: "string \<rightharpoonup> cfile"
  now :: int
  net :: "request \<Rightarrow> outcome"
  requests :: "request list"
  logged :: "string list"

subsection \<open>Built-ins of Python on JSON values\<close>

fun truthy :: "json \<Rightarrow> bool" where
  "truthy JNull = False"
| "truthy (JBool b) = b"
| "truthy (JInt n) = (n \<noteq> 0)"
| "truthy (JStr s) = (s \<noteq> [])"
| "truthy (JArr xs) = (xs \<noteq> [])"
| "truthy (JObj kvs) = (kvs \<noteq> [])"

text \<open>\<^verbatim>\<open>d.get(key, default)\<close>: only a dict has \<^verbatim>\<open>get\<close>.\<close>

fun py_get :: "json \<Rightarrow> string \<Rightarrow> json \<Rightarrow> json result" where
  "py_get (JObj kvs) k d = Inr (case map_of kvs k of None \<Rightarrow> d | Some v \<Rightarrow> v)"
| "py_get _ k d = Inl AttributeError"

text \<open>\<^verbatim>\<open>for x in v\<close>: a list gives its elements, a string its characters, a dict its keys.\<close>

fun py_iter :: "json \<Rightarrow> json list result" where
  "py_iter (JArr xs) = Inr xs"
| "py_iter (JStr s) = Inr (map (\<lambda>c. JStr [c]) s)"
| "py_iter (JObj kvs) = Inr (map (\<lambda>kv. JStr (fst kv)) kvs)"
| "py_iter _ = Inl TypeError"

text \<open>
  \<^verbatim>\<open>v[:n]\<close> for a literal \<open>n \<ge> 0\<close>. A dict raises \<^verbatim>\<open>TypeError\<close> (\<^verbatim>\<open>KeyError\<close> from
  Python 3.12 on, where a slice is hashable).
\<close>

fun py_slice_to :: "json \<Rightarrow> nat \<Rightarrow> json result" where
  "py_slice_to (JArr xs) n = Inr (JArr (take n xs))"
| "py_slice_to (JStr s) n = Inr (JStr (take n s))"
| "py_slice_to _ n = Inl TypeError"

text \<open>\<^verbatim>\<open>v[0]\<close>.\<close>

fun py_first :: "json \<Rightarrow> json result" where
  "py_first (JArr []) = Inl IndexError"
| "py_first (JArr (x # xs)) = Inr x"
| "py_first (JStr []) = Inl IndexError"
| "py_first (JStr (c # cs)) = Inr (JStr [c])"
| "py_first (JObj kvs) = Inl KeyError"
| "py_first _ = Inl TypeError"

text \<open>Running a loop body over a list, stopping at the first exception.\<close>

fun traverse :: "('a \<Rightarrow> 'b result) \<Rightarrow> 'a list \<Rightarrow> 'b list result" where
  "traverse f [] = Inr []"
| "traverse f (x # xs) =
     (case f x of
        Inl e \<Rightarrow> Inl e
      | Inr y \<Rightarrow> (case traverse f xs of Inl e \<Rightarrow> Inl e | Inr ys \<Rightarrow> Inr (y # ys)))"

fun digits :: "nat \<Rightarrow> string" where
  "digits n = (if n < 10 then [char_of (48 + n)] else digits (n div 10) @ [char_of (48 + n mod 10)])"

declare digits.simps [simp del]

definition str_int :: "int \<Rightarrow> string" where
  "str_int i = (if i < 0 then CHR ''-'' # digits (nat (- i)) else digits (nat i))"

text \<open>
  \<^verbatim>\<open>str.lower()\<close>. Of the code points below 256 it changes the capital letters, \<^verbatim>\<open>A\<close> to
  \<^verbatim>\<open>Z\<close> (65 to 90) and \<^verbatim>\<open>\u00c0\<close> to \<^verbatim>\<open>\u00de\<close> (192 to 222) without the multiplication
  sign (215), each to the code point 32 above it.
\<close>

definition is_upper :: "char \<Rightarrow> bool" where
  "is_upper c =
     ((65 \<le> (of_char c :: nat) \<and> (of_char c :: nat) \<le> 90)
      \<or> (192 \<le> (of_char c :: nat) \<and> (of_char c :: nat) \<le> 222 \<and> (of_char c :: nat) \<noteq> 215))"

definition lower_char :: "char \<Rightarrow> char" where
  "lower_char c = (if is_upper c then char_of ((of_char c :: nat) + 32) else c)"

definition str_lower :: "string \<Rightarrow> string" where
  "str_lower s = map lower_char s"

text \<open>
  The capital of a small letter (\<^verbatim>\<open>a\<close> to \<^verbatim>\<open>z\<close>, and 224 to 254 without the division sign,
  247); any other character is left as it is. It is not part of the clients: the
  statements about letter case are written with it.
\<close>

definition is_small :: "char \<Rightarrow> bool" where
  "is_small c =
     ((97 \<le> (of_char c :: nat) \<and> (of_char c :: nat) \<le> 122)
      \<or> (224 \<le> (of_char c :: nat) \<and> (of_char c :: nat) \<le> 254 \<and> (of_char c :: nat) \<noteq> 247))"

definition capital :: "char \<Rightarrow> char" where
  "capital c = (if is_small c then char_of ((of_char c :: nat) - 32) else c)"

text \<open>
  \<^verbatim>\<open>str(v)\<close>, as an f-string formats a value: a string is itself, anything else its
  \<^verbatim>\<open>repr\<close>.
\<close>

definition hex_digit :: "nat \<Rightarrow> char" where
  "hex_digit n = (if n < 10 then char_of (48 + n) else char_of (87 + n))"

definition repr_char :: "char \<Rightarrow> char \<Rightarrow> string" where
  "repr_char quote c =
     (let n = (of_char c :: nat) in
      if c = quote \<or> c = CHR 0x5C then [CHR 0x5C, c]
      else if n = 10 then [CHR 0x5C, CHR ''n'']
      else if n = 13 then [CHR 0x5C, CHR ''r'']
      else if n = 9 then [CHR 0x5C, CHR ''t'']
      else if n < 32 \<or> (127 \<le> n \<and> n \<le> 160) \<or> n = 173
        then [CHR 0x5C, CHR ''x'', hex_digit (n div 16), hex_digit (n mod 16)]
      else [c])"

definition repr_str :: "string \<Rightarrow> string" where
  "repr_str s =
     (let quote = (if CHR 0x27 \<in> set s \<and> CHR 0x22 \<notin> set s then CHR 0x22 else CHR 0x27)
      in [quote] @ concat (map (repr_char quote) s) @ [quote])"

fun join :: "string \<Rightarrow> string list \<Rightarrow> string" where
  "join sep [] = []"
| "join sep [x] = x"
| "join sep (x # y # ys) = x @ sep @ join sep (y # ys)"

fun py_repr :: "json \<Rightarrow> string" where
  "py_repr JNull = ''None''"
| "py_repr (JBool b) = (if b then ''True'' else ''False'')"
| "py_repr (JInt n) = str_int n"
| "py_repr (JStr s) = repr_str s"
| "py_repr (JArr xs) = ''['' @ join '', '' (map py_repr xs) @ '']''"
| "py_repr (JObj kvs) =
     ''{'' @ join '', '' (map (\<lambda>kv. repr_str (fst kv) @ '': '' @ py_repr (snd kv)) kvs) @ ''}''"

fun py_str :: "json \<Rightarrow> string" where
  "py_str (JStr s) = s"
| "py_str v = py_repr v"

text \<open>An optional integer argument (\<^verbatim>\<open>grade_level=None\<close>) as a value, and its truth value.\<close>

fun opt_int :: "int option \<Rightarrow> json" where
  "opt_int None = JNull"
| "opt_int (Some n) = JInt n"

fun opt_str :: "string option \<Rightarrow> json" where
  "opt_str None = JNull"
| "opt_str (Some s) = JStr s"

definition dict_get :: "(string \<times> json) list \<Rightarrow> string \<Rightarrow> json \<Rightarrow> json" where
  "dict_get kvs k d = (case map_of kvs k of None \<Rightarrow> d | Some v \<Rightarrow> v)"

subsection \<open>The file cache and the HTTP session\<close>

text \<open>
  \<^verbatim>\<open>(datetime.now() - datetime.fromtimestamp(cache_file.stat().st_mtime)).days\<close>: the
  whole days of the difference, rounded down (a \<^verbatim>\<open>timedelta\<close> keeps
  \<open>0 \<le> seconds < 86400\<close>, so a negative difference has negative days).
\<close>

definition cache_age_days :: "world \<Rightarrow> cfile \<Rightarrow> int" where
  "cache_age_days w f = (now w - mtime f) div 86400"

text \<open>
  The test every cached operation starts with:
  \<^verbatim>\<open>if cache_file.exists(): ... if cache_age.days < days:\<close>; it yields the file to read.
\<close>

definition fresh :: "world \<Rightarrow> string \<Rightarrow> int \<Rightarrow> cfile option" where
  "fresh w name days =
     (case files w name of
        None \<Rightarrow> None
      | Some f \<Rightarrow> if cache_age_days w f < days then Some f else None)"

definition json_load :: "cfile \<Rightarrow> json result" where
  "json_load f = (case stored f of Doc v \<Rightarrow> Inr v | Malformed \<Rightarrow> Inl JSONDecodeError)"

text \<open>\<^verbatim>\<open>json.dump(data, f)\<close> into the file opened under \<open>name\<close>.\<close>

definition json_dump :: "world \<Rightarrow> string \<Rightarrow> json \<Rightarrow> world" where
  "json_dump w name v = w\<lparr>files := (files w)(name \<mapsto> \<lparr>stored = Doc v, mtime = now w\<rparr>)\<rparr>"

text \<open>
  \<^verbatim>\<open>open(cache_file, 'w')\<close>, where \<^verbatim>\<open>cache_file\<close> is \<^verbatim>\<open>self.cache_dir / name\<close>. The clients
  create the cache directory and nothing below it, so the directory is flat: a name
  with \<^verbatim>\<open>/\<close> in it lies in a directory that does not exist (\<^verbatim>\<open>FileNotFoundError\<close>), or
  below a file (\<^verbatim>\<open>NotADirectoryError\<close>); a name with a NUL character is refused before
  that (\<^verbatim>\<open>ValueError\<close>). Every name the clients build starts with a fixed prefix, never
  with \<^verbatim>\<open>/\<close>. Other failures (a full disk, missing rights, a name longer than the file
  system allows, for which \<^verbatim>\<open>Path.exists\<close> may raise as well) are not modelled.
\<close>

definition open_error :: "world \<Rightarrow> string \<Rightarrow> exc option" where
  "open_error w name =
     (if CHR 0x00 \<in> set name then Some ValueError
      else if CHR ''/'' \<in> set name then
        (if files w (takeWhile (\<lambda>c. c \<noteq> CHR ''/'') name) = None then Some FileNotFoundError
         else Some NotADirectoryError)
      else None)"

text \<open>\<^verbatim>\<open>with open(cache_file, 'w') as f: json.dump(data, f)\<close>\<close>

definition write_json :: "world \<Rightarrow> string \<Rightarrow> json \<Rightarrow> world result" where
  "write_json w name v =
     (case open_error w name of Some e \<Rightarrow> Inl e | None \<Rightarrow> Inr (json_dump w name v))"

definition session_get :: "world \<Rightarrow> request \<Rightarrow> outcome \<times> world" where
  "session_get w r = (net w r, w\<lparr>requests := requests w @ [r]\<rparr>)"

text \<open>
  \<^verbatim>\<open>response.raise_for_status(); response.json()\<close> inside the \<^verbatim>\<open>try\<close>: \<open>None\<close> when a
  \<^verbatim>\<open>RequestException\<close> was raised, by \<^verbatim>\<open>session.get\<close> or by a status from 400 to 599.
\<close>

fun response_json :: "outcome \<Rightarrow> json option" where
  "response_json TransportError = None"
| "response_json (Response status data) = (if 400 \<le> status \<and> status < 600 then None else Some data)"

definition logger_error :: "world \<Rightarrow> string \<Rightarrow> world" where
  "logger_error w msg = w\<lparr>logged := logged w @ [msg]\<rparr>"

text \<open>Sequencing of two steps of which the first may raise.\<close>

fun and_then :: "'a result \<Rightarrow> ('a \<Rightarrow> 'b result) \<Rightarrow> 'b result" where
  "and_then (Inl e) f = Inl e"
| "and_then (Inr v) f = f v"

section \<open>Khan Academy client (\<^verbatim>\<open>khan_api.py\<close>)\<close>

text \<open>
  Where a cache file is named by \<^verbatim>\<open>hashlib.md5(...).hexdigest()\<close>, the digest function is
  the parameter \<open>md5_hexdigest\<close> of the operation.
\<close>

definition khan_base_url :: string where
  "khan_base_url = ''https://www.khanacademy.org/api/v1''"

fun process_video :: "json \<Rightarrow> json result" where
  "process_video (JObj video) = Inr (JObj
     [(''id'', dict_get video ''id'' JNull),
      (''title'', dict_get video ''title'' JNull),
      (''description'', dict_get video ''description'' JNull),
      (''duration'', dict_get video ''duration'' JNull),
      (''thumbnail'', dict_get video ''thumbnail_url'' JNull),
      (''url'', dict_get video ''url'' JNull),
      (''subject'', dict_get video ''subject'' JNull),
      (''grade_level'', dict_get video ''grade_level'' JNull)])"
| "process_video _ = Inl AttributeError"

definition process_videos :: "json \<Rightarrow> json result" where
  "process_videos videos =
     and_then (py_iter videos) (\<lambda>vs.
     and_then (traverse process_video vs) (\<lambda>processed_videos.
     Inr (JArr processed_videos)))"

fun process_exercise :: "json \<Rightarrow> json result" where
  "process_exercise (JObj exercise) = Inr (JObj
     [(''id'', dict_get exercise ''id'' JNull),
      (''title'', dict_get exercise ''title'' JNull),
      (''description'', dict_get exercise ''description'' JNull),
      (''type'', dict_get exercise ''type'' JNull),
      (''difficulty'', dict_get exercise ''difficulty'' JNull),
      (''subject'', dict_get exercise ''subject'' JNull)])"
| "process_exercise _ = Inl AttributeError"

definition process_exercises :: "json \<Rightarrow> json result" where
  "process_exercises exercises =
     and_then (py_iter exercises) (\<lambda>es.
     and_then (traverse process_exercise es) (\<lambda>processed_exercises.
     Inr (JArr processed_exercises)))"

text \<open>\<^verbatim>\<open>if grade_level: params['grade_level'] = grade_level\<close>\<close>

fun grade_level_param :: "int option \<Rightarrow> (string \<times> json) list" where
  "grade_level_param None = []"
| "grade_level_param (Some g) = (if g \<noteq> 0 then [(''grade_level'', JInt g)] else [])"

definition khan_search_cache_file :: "(string \<Rightarrow> string) \<Rightarrow> string \<Rightarrow> int option \<Rightarrow> string" where
  "khan_search_cache_file md5_hexdigest topic grade_level =
     ''search_'' @ md5_hexdigest (topic @ ''_'' @ py_str (opt_int grade_level)) @ ''.json''"

definition get_cached_videos ::
  "world \<Rightarrow> (string \<Rightarrow> string) \<Rightarrow> string \<Rightarrow> int option \<Rightarrow> json result" where
  "get_cached_videos w md5_hexdigest topic grade_level =
     (case files w (khan_search_cache_file md5_hexdigest topic grade_level) of
        Some f \<Rightarrow> json_load f
      | None \<Rightarrow> Inr (JArr []))"

definition search_videos_request :: "string \<Rightarrow> int option \<Rightarrow> int \<Rightarrow> request" where
  "search_videos_request topic grade_level limit =
     \<lparr>url = khan_base_url @ ''/videos'',
      params = [(''query'', JStr topic), (''limit'', JInt limit)] @ grade_level_param grade_level\<rparr>"

definition search_videos ::
  "world \<Rightarrow> (string \<Rightarrow> string) \<Rightarrow> string \<Rightarrow> int option \<Rightarrow> int \<Rightarrow> json result \<times> world" where
  "search_videos w md5_hexdigest topic grade_level limit =
     (let (response, w1) = session_get w (search_videos_request topic grade_level limit) in
      case response_json response of
        Some videos \<Rightarrow> (process_videos videos, w1)
      | None \<Rightarrow>
          (let w2 = logger_error w1 ''Khan Academy API error'' in
           (get_cached_videos w2 md5_hexdigest topic grade_level, w2)))"

definition video_cache_file :: "string \<Rightarrow> string" where
  "video_cache_file video_id = ''video_'' @ video_id @ ''.json''"

definition video_content_request :: "string \<Rightarrow> request" where
  "video_content_request video_id = \<lparr>url = khan_base_url @ ''/videos/'' @ video_id, params = []\<rparr>"

definition get_video_content :: "world \<Rightarrow> string \<Rightarrow> json result \<times> world" where
  "get_video_content w video_id =
     (let cache_file = video_cache_file video_id in
      case fresh w cache_file 7 of
        Some f \<Rightarrow> (json_load f, w)
      | None \<Rightarrow>
          (let (response, w1) = session_get w (video_content_request video_id) in
           case response_json response of
             Some video_data \<Rightarrow>
               (case write_json w1 cache_file video_data of
                  Inl e \<Rightarrow> (Inl e, w1)
                | Inr w2 \<Rightarrow> (Inr video_data, w2))
           | None \<Rightarrow> (Inr JNull, logger_error w1 (''Error fetching video '' @ video_id))))"

definition exercises_request :: "string \<Rightarrow> int option \<Rightarrow> request" where
  "exercises_request subject grade_level =
     \<lparr>url = khan_base_url @ ''/exercises'',
      params = [(''subject'', JStr subject)] @ grade_level_param grade_level\<rparr>"

definition get_exercises :: "world \<Rightarrow> string \<Rightarrow> int option \<Rightarrow> json result \<times> world" where
  "get_exercises w subject grade_level =
     (let (response, w1) = session_get w (exercises_request subject grade_level) in
      case response_json response of
        Some exercises \<Rightarrow> (process_exercises exercises, w1)
      | None \<Rightarrow> (Inr (JArr []), logger_error w1 ''Error fetching exercises''))"

definition subject_topics_request :: "string \<Rightarrow> request" where
  "subject_topics_request subject =
     \<lparr>url = khan_base_url @ ''/subjects/'' @ subject @ ''/topics'', params = []\<rparr>"

definition get_subject_topics :: "world \<Rightarrow> string \<Rightarrow> json result \<times> world" where
  "get_subject_topics w subject =
     (let (response, w1) = session_get w (subject_topics_request subject) in
      case response_json response of
        Some topics \<Rightarrow> (Inr topics, w1)
      | None \<Rightarrow> (Inr (JArr []), logger_error w1 (''Error fetching topics for '' @ subject)))"

definition get_subject_content ::
  "world \<Rightarrow> (string \<Rightarrow> string) \<Rightarrow> string \<Rightarrow> int option \<Rightarrow> json result \<times> world" where
  "get_subject_content w md5_hexdigest subject grade_level =
     (case search_videos w md5_hexdigest subject grade_level 20 of
        (Inl e, w1) \<Rightarrow> (Inl e, w1)
      | (Inr videos, w1) \<Rightarrow>
          (case get_exercises w1 subject grade_level of
             (Inl e, w2) \<Rightarrow> (Inl e, w2)
           | (Inr exercises, w2) \<Rightarrow>
               (case get_subject_topics w2 subject of
                  (Inl e, w3) \<Rightarrow> (Inl e, w3)
                | (Inr topics, w3) \<Rightarrow>
                    (Inr (JObj [(''videos'', videos), (''exercises'', exercises), (''topics'', topics)]),
                     w3))))"

text \<open>\<^verbatim>\<open>d[key]\<close> on a dict.\<close>

fun py_item :: "json \<Rightarrow> string \<Rightarrow> json result" where
  "py_item (JObj kvs) k = (case map_of kvs k of None \<Rightarrow> Inl KeyError | Some v \<Rightarrow> Inr v)"
| "py_item _ k = Inl TypeError"

definition create_lesson_from_khan ::
  "world \<Rightarrow> (string \<Rightarrow> string) \<Rightarrow> string \<Rightarrow> int option \<Rightarrow> string \<Rightarrow> json result \<times> world" where
  "create_lesson_from_khan w md5_hexdigest subject grade_level topic =
     (case get_subject_content w md5_hexdigest subject grade_level of
        (Inl e, w1) \<Rightarrow> (Inl e, w1)
      | (Inr content, w1) \<Rightarrow>
          (and_then (py_item content ''videos'') (\<lambda>videos.
           and_then (py_slice_to videos 3) (\<lambda>videos3.
           and_then (py_item content ''exercises'') (\<lambda>exercises.
           and_then (py_slice_to exercises 5) (\<lambda>exercises5.
           Inr (JObj
             [(''title'', JStr (''Khan Academy - '' @ subject @ '' - '' @ topic)),
              (''subject'', JStr subject),
              (''grade_level'', opt_int grade_level),
              (''content_type'', JStr ''khan_academy''),
              (''videos'', videos3),
              (''exercises'', exercises5),
              (''estimated_time'', JInt 30),
              (''xp_value'', JInt 15)]))))),
           w1))"

section \<open>CK-12 client (\<^verbatim>\<open>ck12_api.py\<close>)\<close>

definition ck12_base_url :: string where
  "ck12_base_url = ''https://www.ck12.org/api/v1''"

fun process_item :: "json \<Rightarrow> json result" where
  "process_item (JObj c) = Inr (JObj
     [(''id'', dict_get c ''id'' JNull),
      (''title'', dict_get c ''title'' JNull),
      (''description'', dict_get c ''description'' JNull),
      (''type'', dict_get c ''type'' JNull),
      (''subject'', dict_get c ''subject'' JNull),
      (''grade_level'', dict_get c ''grade_level'' JNull),
      (''url'', dict_get c ''url'' JNull),
      (''embed_url'', dict_get c ''embed_url'' JNull),
      (''difficulty'', dict_get c ''difficulty'' (JStr ''medium''))])"
| "process_item _ = Inl AttributeError"

definition process_content :: "json \<Rightarrow> json result" where
  "process_content content_list =
     and_then (py_iter content_list) (\<lambda>cs.
     and_then (traverse process_item cs) (\<lambda>processed_content.
     Inr (JArr processed_content)))"

text \<open>\<^verbatim>\<open>if subject: params['subject'] = subject\<close>\<close>

fun subject_param :: "string option \<Rightarrow> (string \<times> json) list" where
  "subject_param None = []"
| "subject_param (Some s) = (if s \<noteq> [] then [(''subject'', JStr s)] else [])"

definition search_content_request :: "string \<Rightarrow> string option \<Rightarrow> int option \<Rightarrow> int \<Rightarrow> request" where
  "search_content_request query subject grade_level limit =
     \<lparr>url = ck12_base_url @ ''/content'',
      params = [(''q'', JStr query), (''limit'', JInt limit)]
                 @ subject_param subject @ grade_level_param grade_level\<rparr>"

definition search_cache_file ::
  "(string \<Rightarrow> string) \<Rightarrow> string \<Rightarrow> string option \<Rightarrow> int option \<Rightarrow> string" where
  "search_cache_file md5_hexdigest query subject grade_level =
     ''search_''
       @ md5_hexdigest (query @ ''_'' @ py_str (opt_str subject) @ ''_'' @ py_str (opt_int grade_level))
       @ ''.json''"

definition search_content ::
  "world \<Rightarrow> (string \<Rightarrow> string) \<Rightarrow> string \<Rightarrow> string option \<Rightarrow> int option \<Rightarrow> int
     \<Rightarrow> json result \<times> world" where
  "search_content w md5_hexdigest query subject grade_level limit =
     (let cache_file = search_cache_file md5_hexdigest query subject grade_level in
      case fresh w cache_file 7 of
        Some f \<Rightarrow>
          (and_then (json_load f) (\<lambda>data.
           and_then (py_get data ''content'' (JArr [])) process_content), w)
      | None \<Rightarrow>
          (let (response, w1) =
                 session_get w (search_content_request query subject grade_level limit) in
           case response_json response of
             Some data \<Rightarrow>
               (case write_json w1 cache_file data of
                  Inl e \<Rightarrow> (Inl e, w1)
                | Inr w2 \<Rightarrow> (and_then (py_get data ''content'' (JArr [])) process_content, w2))
           | None \<Rightarrow> (Inr (JArr []), logger_error w1 ''CK-12 search error'')))"

definition content_cache_file :: "string \<Rightarrow> string" where
  "content_cache_file content_id = ''content_'' @ content_id @ ''.json''"

definition content_details_request :: "string \<Rightarrow> request" where
  "content_details_request content_id =
     \<lparr>url = ck12_base_url @ ''/content/'' @ content_id, params = []\<rparr>"

definition get_content_details :: "world \<Rightarrow> string \<Rightarrow> json result \<times> world" where
  "get_content_details w content_id =
     (let cache_file = content_cache_file content_id in
      case fresh w cache_file 30 of
        Some f \<Rightarrow> (json_load f, w)
      | None \<Rightarrow>
          (let (response, w1) = session_get w (content_details_request content_id) in
           case response_json response of
             Some content_data \<Rightarrow>
               (case write_json w1 cache_file content_data of
                  Inl e \<Rightarrow> (Inl e, w1)
                | Inr w2 \<Rightarrow> (Inr content_data, w2))
           | None \<Rightarrow> (Inr JNull, logger_error w1 ''CK-12 content details error'')))"

section \<open>NASA client (\<^verbatim>\<open>nasa_api.py\<close>)\<close>

definition nasa_base_url :: string where
  "nasa_base_url = ''https://api.nasa.gov''"

text \<open>\<^verbatim>\<open>self.api_key = api_key or 'DEMO_KEY'\<close>\<close>

fun nasa_api_key :: "string option \<Rightarrow> string" where
  "nasa_api_key None = ''DEMO_KEY''"
| "nasa_api_key (Some k) = (if k \<noteq> [] then k else ''DEMO_KEY'')"

text \<open>
  When the cache file exists, \<^verbatim>\<open>get_space_weather\<close> evaluates \<^verbatim>\<open>cache_age.hours\<close>; a
  \<^verbatim>\<open>timedelta\<close> has the attributes \<^verbatim>\<open>days\<close>, \<^verbatim>\<open>seconds\<close> and \<^verbatim>\<open>microseconds\<close> only, so
  the attribute access raises before the file is read.
\<close>

definition space_weather_request :: "string option \<Rightarrow> request" where
  "space_weather_request api_key =
     \<lparr>url = nasa_base_url @ ''/DONKI/WSJ'', params = [(''api_key'', JStr (nasa_api_key api_key))]\<rparr>"

definition get_space_weather :: "world \<Rightarrow> string option \<Rightarrow> json result \<times> world" where
  "get_space_weather w api_key =
     (let cache_file = ''space_weather.json'' in
      case files w cache_file of
        Some f \<Rightarrow> (Inl AttributeError, w)
      | None \<Rightarrow>
          (let (response, w1) = session_get w (space_weather_request api_key) in
           case response_json response of
             Some weather_data \<Rightarrow>
               (case write_json w1 cache_file weather_data of
                  Inl e \<Rightarrow> (Inl e, w1)
                | Inr w2 \<Rightarrow> (Inr weather_data, w2))
           | None \<Rightarrow> (Inr JNull, logger_error w1 ''NASA Space Weather API error'')))"

text \<open>\<^verbatim>\<open>if date: params['date'] = date\<close>, and \<^verbatim>\<open>date or 'today'\<close> in the file name.\<close>

fun date_param :: "string option \<Rightarrow> (string \<times> json) list" where
  "date_param None = []"
| "date_param (Some d) = (if d \<noteq> [] then [(''date'', JStr d)] else [])"

fun date_or_today :: "string option \<Rightarrow> string" where
  "date_or_today None = ''today''"
| "date_or_today (Some d) = (if d \<noteq> [] then d else ''today'')"

definition apod_cache_file :: "string option \<Rightarrow> string" where
  "apod_cache_file date = ''apod_'' @ date_or_today date @ ''.json''"

definition apod_request :: "string option \<Rightarrow> string option \<Rightarrow> request" where
  "apod_request api_key date =
     \<lparr>url = nasa_base_url @ ''/planetary/apod'',
      params = [(''api_key'', JStr (nasa_api_key api_key))] @ date_param date\<rparr>"

definition get_apod :: "world \<Rightarrow> string option \<Rightarrow> string option \<Rightarrow> json result \<times> world" where
  "get_apod w api_key date =
     (let cache_file = apod_cache_file date in
      case fresh w cache_file 1 of
        Some f \<Rightarrow> (json_load f, w)
      | None \<Rightarrow>
          (let (response, w1) = session_get w (apod_request api_key date) in
           case response_json response of
             Some apod_data \<Rightarrow>
               (case write_json w1 cache_file apod_data of
                  Inl e \<Rightarrow> (Inl e, w1)
                | Inr w2 \<Rightarrow> (Inr apod_data, w2))
           | None \<Rightarrow> (Inr JNull, logger_error w1 ''NASA APOD API error'')))"

section \<open>OpenLibrary client (\<^verbatim>\<open>book_search.py\<close>)\<close>

definition openlibrary_base_url :: string where
  "openlibrary_base_url = ''https://openlibrary.org''"

text \<open>\<^verbatim>\<open>keyword in text\<close> on strings.\<close>

fun starts_with :: "string \<Rightarrow> string \<Rightarrow> bool" where
  "starts_with [] t = True"
| "starts_with (k # ks) [] = False"
| "starts_with (k # ks) (c # cs) = (k = c \<and> starts_with ks cs)"

fun contains :: "string \<Rightarrow> string \<Rightarrow> bool" where
  "contains k [] = (k = [])"
| "contains k (c # cs) = (starts_with k (c # cs) \<or> contains k cs)"

definition mature_keywords :: "string list" where
  "mature_keywords = [''adult'', ''mature'', ''teen'', ''young adult'']"

text \<open>\<^verbatim>\<open>any(keyword in subject.lower() for subject in subjects)\<close>, over the elements of \<open>subjects\<close>.\<close>

fun any_subject :: "string \<Rightarrow> json list \<Rightarrow> bool result" where
  "any_subject keyword [] = Inr False"
| "any_subject keyword (JStr subject # rest) =
     (if contains keyword (str_lower subject) then Inr True else any_subject keyword rest)"
| "any_subject keyword (_ # rest) = Inl AttributeError"

text \<open>The loop over the keywords, left by \<^verbatim>\<open>break\<close> at the first keyword found.\<close>

fun is_mature :: "string list \<Rightarrow> string \<Rightarrow> json \<Rightarrow> bool result" where
  "is_mature [] title subjects = Inr False"
| "is_mature (keyword # keywords) title subjects =
     (if contains keyword title then Inr True
      else and_then (and_then (py_iter subjects) (any_subject keyword)) (\<lambda>found.
           if found then Inr True else is_mature keywords title subjects))"

definition is_appropriate :: "int \<Rightarrow> json \<Rightarrow> bool result" where
  "is_appropriate grade_level book =
     and_then (py_get book ''title'' (JStr [])) (\<lambda>t.
       case t of
         JStr s \<Rightarrow>
           and_then (py_get book ''subject'' (JArr [])) (\<lambda>subjects.
             if grade_level \<le> 3
             then and_then (is_mature mature_keywords (str_lower s) subjects) (\<lambda>m. Inr (\<not> m))
             else Inr True)
       | _ \<Rightarrow> Inl AttributeError)"

fun filter_books :: "int \<Rightarrow> json list \<Rightarrow> json list result" where
  "filter_books grade_level [] = Inr []"
| "filter_books grade_level (book # books) =
     and_then (is_appropriate grade_level book) (\<lambda>ok.
     and_then (filter_books grade_level books) (\<lambda>filtered_books.
     Inr (if ok then book # filtered_books else filtered_books)))"

fun filter_by_grade_level :: "json \<Rightarrow> int option \<Rightarrow> json result" where
  "filter_by_grade_level books None = Inr books"
| "filter_by_grade_level books (Some g) =
     (if g = 0 then Inr books
      else and_then (py_iter books) (\<lambda>bs.
           and_then (filter_books g bs) (\<lambda>filtered_books. Inr (JArr filtered_books))))"

definition books_cache_file :: "(string \<Rightarrow> string) \<Rightarrow> string \<Rightarrow> string" where
  "books_cache_file md5_hexdigest query = ''search_'' @ md5_hexdigest query @ ''.json''"

definition search_books_request :: "string \<Rightarrow> int \<Rightarrow> request" where
  "search_books_request query limit =
     \<lparr>url = openlibrary_base_url @ ''/search.json'',
      params = [(''q'', JStr query), (''limit'', JInt limit)]\<rparr>"

definition search_books ::
  "world \<Rightarrow> (string \<Rightarrow> string) \<Rightarrow> string \<Rightarrow> int \<Rightarrow> int option \<Rightarrow> json result \<times> world" where
  "search_books w md5_hexdigest query limit grade_level =
     (let cache_file = books_cache_file md5_hexdigest query in
      case fresh w cache_file 7 of
        Some f \<Rightarrow>
          (and_then (json_load f) (\<lambda>data.
           and_then (py_get data ''docs'' (JArr [])) (\<lambda>docs.
           filter_by_grade_level docs grade_level)), w)
      | None \<Rightarrow>
          (let (response, w1) = session_get w (search_books_request query limit) in
           case response_json response of
             Some data \<Rightarrow>
               (case write_json w1 cache_file data of
                  Inl e \<Rightarrow> (Inl e, w1)
                | Inr w2 \<Rightarrow>
                    (and_then (py_get data ''docs'' (JArr [])) (\<lambda>docs.
                     filter_by_grade_level docs grade_level), w2))
           | None \<Rightarrow> (Inr (JArr []), logger_error w1 ''OpenLibrary search error'')))"

definition book_cache_file :: "string \<Rightarrow> string" where
  "book_cache_file book_id = ''book_'' @ book_id @ ''.json''"

definition book_details_request :: "string \<Rightarrow> request" where
  "book_details_request book_id =
     \<lparr>url = openlibrary_base_url @ ''/works/'' @ book_id @ ''.json'', params = []\<rparr>"

definition get_book_details :: "world \<Rightarrow> string \<Rightarrow> json result \<times> world" where
  "get_book_details w book_id =
     (let cache_file = book_cache_file book_id in
      case fresh w cache_file 30 of
        Some f \<Rightarrow> (json_load f, w)
      | None \<Rightarrow>
          (let (response, w1) = session_get w (book_details_request book_id) in
           case response_json response of
             Some book_data \<Rightarrow>
               (case write_json w1 cache_file book_data of
                  Inl e \<Rightarrow> (Inl e, w1)
                | Inr w2 \<Rightarrow> (Inr book_data, w2))
           | None \<Rightarrow> (Inr JNull, logger_error w1 ''OpenLibrary book details error'')))"

text \<open>
  \<^verbatim>\<open>book.get('author_name', ['Unknown Author'])[0] if 'author_name' in book else 'Unknown Author'\<close>
\<close>

definition author_of :: "(string \<times> json) list \<Rightarrow> json result" where
  "author_of book =
     (case map_of book ''author_name'' of
        Some names \<Rightarrow> py_first names
      | None \<Rightarrow> Inr (JStr ''Unknown Author''))"

definition create_reading_lesson ::
  "world \<Rightarrow> (string \<Rightarrow> string) \<Rightarrow> string \<Rightarrow> int \<Rightarrow> json result \<times> world" where
  "create_reading_lesson w md5_hexdigest book_title grade_level =
     (case search_books w md5_hexdigest book_title 1 None of
        (Inl e, w1) \<Rightarrow> (Inl e, w1)
      | (Inr books, w1) \<Rightarrow>
          if \<not> truthy books then (Inr JNull, w1)
          else
            (case py_first books of
               Inl e \<Rightarrow> (Inl e, w1)
             | Inr (JObj book) \<Rightarrow>
                 (case get_book_details w1 (py_str (dict_get book ''key'' (JStr []))) of
                    (Inl e, w2) \<Rightarrow> (Inl e, w2)
                  | (Inr book_details, w2) \<Rightarrow>
                      (and_then (author_of book) (\<lambda>author.
                       Inr (JObj
                         [(''title'',
                             JStr (''Reading: '' @ py_str (dict_get book ''title'' (JStr book_title)))),
                          (''subject'', JStr ''reading''),
                          (''grade_level'', JInt grade_level),
                          (''content_type'', JStr ''openlibrary''),
                          (''book_data'', JObj book),
                          (''book_details'', book_details),
                          (''text_content'',
                             JStr (''Read and discuss ''
                                   @ py_str (dict_get book ''title'' (JStr book_title))
                                   @ '' by '' @ py_str author @ ''.'')),
                          (''estimated_time'', JInt 45),
                          (''xp_value'', JInt 30)])),
                       w2))
             | Inr _ \<Rightarrow> (Inl AttributeError, w1)))"

section \<open>WordsAPI client (\<^verbatim>\<open>vocab_lookup.py\<close>)\<close>

definition words_base_url :: string where
  "words_base_url = ''https://wordsapiv1.p.rapidapi.com''"

definition definition_of :: "string \<Rightarrow> string \<Rightarrow> json" where
  "definition_of word d =
     JObj [(''word'', JStr word), (''results'', JArr [JObj [(''definition'', JStr d)]])]"

definition basic_definitions :: "(string \<times> json) list" where
  "basic_definitions =
     [(''happy'', definition_of ''happy'' ''feeling or showing pleasure or contentment''),
      (''big'', definition_of ''big'' ''of considerable size or extent''),
      (''small'', definition_of ''small'' ''of a size that is less than normal or usual''),
      (''fast'', definition_of ''fast'' ''moving or capable of moving at high speed''),
      (''slow'', definition_of ''slow'' ''moving or operating at a low speed''),
      (''good'', definition_of ''good'' ''to be desired or approved of''),
      (''bad'', definition_of ''bad'' ''of poor quality or a low standard''),
      (''new'', definition_of ''new''
         ''not existing before; made, introduced, or discovered recently''),
      (''old'', definition_of ''old'' ''having lived for a long time; no longer young''),
      (''hot'', definition_of ''hot'' ''having a high degree of heat or a high temperature'')]"

definition get_basic_definition :: "string \<Rightarrow> json" where
  "get_basic_definition word =
     dict_get basic_definitions (str_lower word)
       (definition_of word (''A word meaning related to '' @ word))"

definition word_cache_file :: "string \<Rightarrow> string" where
  "word_cache_file word = ''word_'' @ str_lower word @ ''.json''"

text \<open>\<^verbatim>\<open>if not self.api_key\<close>: no key, or the empty string.\<close>

fun has_api_key :: "string option \<Rightarrow> bool" where
  "has_api_key None = False"
| "has_api_key (Some k) = (k \<noteq> [])"

definition word_request :: "string \<Rightarrow> request" where
  "word_request word = \<lparr>url = words_base_url @ ''/words/'' @ word, params = []\<rparr>"

definition get_word_definition :: "world \<Rightarrow> string option \<Rightarrow> string \<Rightarrow> json result \<times> world" where
  "get_word_definition w api_key word =
     (let cache_file = word_cache_file word in
      case fresh w cache_file 30 of
        Some f \<Rightarrow> (json_load f, w)
      | None \<Rightarrow>
          if \<not> has_api_key api_key then (Inr (get_basic_definition word), w)
          else
            (let (response, w1) = session_get w (word_request word) in
             case response_json response of
               Some word_data \<Rightarrow>
               (case write_json w1 cache_file word_data of
                  Inl e \<Rightarrow> (Inl e, w1)
                | Inr w2 \<Rightarrow> (Inr word_data, w2))
             | None \<Rightarrow>
                 (Inr (get_basic_definition word),
                  logger_error w1 (''WordsAPI error for word '' @ [CHR 0x27] @ word @ [CHR 0x27]))))"

text \<open>
  The lesson's title is formatted with \<^verbatim>\<open>word.title()\<close>; that built-in is the parameter
  \<open>str_title\<close> of the operation.
\<close>

definition create_vocabulary_lesson ::
  "world \<Rightarrow> (string \<Rightarrow> string) \<Rightarrow> string option \<Rightarrow> string \<Rightarrow> int
     \<Rightarrow> json result \<times> world" where
  "create_vocabulary_lesson w str_title api_key word grade_level =
     (case get_word_definition w api_key word of
        (Inl e, w1) \<Rightarrow> (Inl e, w1)
      | (Inr word_data, w1) \<Rightarrow>
          if \<not> truthy word_data then (Inr JNull, w1)
          else
            (Inr (JObj
               [(''title'', JStr (''Vocabulary: '' @ str_title word)),
                (''subject'', JStr ''vocabulary''),
                (''grade_level'', JInt grade_level),
                (''content_type'', JStr ''wordsapi''),
                (''word'', JStr word),
                (''word_data'', word_data),
                (''text_content'',
                   JStr (''Learn the meaning, synonyms, and usage of the word '' @ [CHR 0x27]
                         @ word @ [CHR 0x27] @ ''.'')),
                (''estimated_time'', JInt 15),
                (''xp_value'', JInt 10)]),
             w1))"

section \<open>Worlds used in the statements\<close>

text \<open>
  Between two calls the clock moves and the network may answer differently: \<open>later w t n\<close>
  is the world \<open>w\<close> at time \<open>t\<close> with the network \<open>n\<close>. The files and the traces stay.
\<close>

definition later :: "world \<Rightarrow> int \<Rightarrow> (request \<Rightarrow> outcome) \<Rightarrow> world" where
  "later w t n = w\<lparr>now := t, net := n\<rparr>"

text \<open>A world with no file, no request sent and nothing logged.\<close>

definition empty_world :: "int \<Rightarrow> (request \<Rightarrow> outcome) \<Rightarrow> world" where
  "empty_world t n = \<lparr>files = Map.empty, now = t, net = n, requests = [], logged = []\<rparr>"

text \<open>A world with the given files, no request sent and nothing logged.\<close>

definition world_of :: "(string \<times> cfile) list \<Rightarrow> int \<Rightarrow> (request \<Rightarrow> outcome) \<Rightarrow> world" where
  "world_of fs t n = \<lparr>files = map_of fs, now = t, net = n, requests = [], logged = []\<rparr>"

text \<open>The world without one of its files.\<close>

definition remove_file :: "world \<Rightarrow> string \<Rightarrow> world" where
  "remove_file w name = w\<lparr>files := (files w)(name := None)\<rparr>"

text \<open>A network that gives every request the same answer.\<close>

definition always :: "outcome \<Rightarrow> request \<Rightarrow> outcome" where
  "always out r = out"

text \<open>
  Sample worlds: a cache directory that holds one entry of each cached operation, all with
  the same text and modification time, and one that holds a Khan Academy search entry.
  The digest function of the samples is the identity; their title function makes the
  first letter a capital, as \<^verbatim>\<open>str.title\<close> does on a word of small letters.
\<close>

definition sample_doc :: json where
  "sample_doc = JObj [(''word'', JStr ''happy''), (''content'', JArr []), (''docs'', JArr [])]"

definition sample_title :: "string \<Rightarrow> string" where
  "sample_title s = (case s of [] \<Rightarrow> [] | c # cs \<Rightarrow> capital c # cs)"

definition sample_videos :: json where
  "sample_videos = JArr [JObj [(''id'', JInt 7), (''title'', JStr ''Fractions'')]]"

definition cached_world :: "body \<Rightarrow> int \<Rightarrow> int \<Rightarrow> (request \<Rightarrow> outcome) \<Rightarrow> world" where
  "cached_world b m t n =
     world_of
       [(video_cache_file ''v1'', \<lparr>stored = b, mtime = m\<rparr>),
        (content_cache_file ''c1'', \<lparr>stored = b, mtime = m\<rparr>),
        (search_cache_file id ''fractions'' None None, \<lparr>stored = b, mtime = m\<rparr>),
        (books_cache_file id ''fractions'', \<lparr>stored = b, mtime = m\<rparr>),
        (book_cache_file ''b1'', \<lparr>stored = b, mtime = m\<rparr>),
        (word_cache_file ''happy'', \<lparr>stored = b, mtime = m\<rparr>),
        (apod_cache_file None, \<lparr>stored = b, mtime = m\<rparr>)]
       t n"

definition khan_world :: "body \<Rightarrow> int \<Rightarrow> int \<Rightarrow> (request \<Rightarrow> outcome) \<Rightarrow> world" where
  "khan_world b m t n =
     world_of [(khan_search_cache_file id ''fractions'' (Some 3), \<lparr>stored = b, mtime = m\<rparr>)] t n"

section \<open>The three paths of a cached operation\<close>

lemmas file_names = video_cache_file_def content_cache_file_def search_cache_file_def
  books_cache_file_def book_cache_file_def word_cache_file_def khan_search_cache_file_def
  apod_cache_file_def
  str_lower_def lower_char_def is_upper_def

lemmas write_defs = write_json_def open_error_def str_int_def digits.simps char_of_def bit_0

lemmas world_defs = cached_world_def khan_world_def world_of_def empty_world_def always_def



lemma fresh_requests [simp]: "fresh (w\<lparr>requests := rs\<rparr>) name days = fresh w name days"
  by (simp add: fresh_def cache_age_days_def split: option.splits)

lemma open_error_requests [simp]: "open_error (w\<lparr>requests := rs\<rparr>) name = open_error w name"
  by (simp add: open_error_def)

lemma now_json_dump [simp]: "now (json_dump w name v) = now w"
  by (simp add: json_dump_def)

lemma fresh_after_dump:
  "(t - now w) div 86400 < days \<Longrightarrow>
   fresh (later (json_dump w name v) t n) name days = Some \<lparr>stored = Doc v, mtime = now w\<rparr>"
  by (simp add: fresh_def json_dump_def later_def cache_age_days_def)

lemma get_video_content_hit:
  "fresh w (video_cache_file video_id) 7 = Some f \<Longrightarrow>
   get_video_content w video_id = (json_load f, w)"
  by (simp add: get_video_content_def)

lemma get_video_content_fetched:
  "fresh w (video_cache_file video_id) 7 = None \<Longrightarrow>
   response_json (net w (video_content_request video_id)) = Some v \<Longrightarrow>
   open_error w (video_cache_file video_id) = None \<Longrightarrow>
   get_video_content w video_id =
     (Inr v, json_dump (w\<lparr>requests := requests w @ [video_content_request video_id]\<rparr>)
               (video_cache_file video_id) v)"
  by (simp add: get_video_content_def session_get_def write_json_def)

lemma get_video_content_failed:
  "fresh w (video_cache_file video_id) 7 = None \<Longrightarrow>
   response_json (net w (video_content_request video_id)) = None \<Longrightarrow>
   get_video_content w video_id =
     (Inr JNull, logger_error (w\<lparr>requests := requests w @ [video_content_request video_id]\<rparr>)
                   (''Error fetching video '' @ video_id))"
  by (simp add: get_video_content_def session_get_def write_json_def)

lemma get_word_definition_hit:
  "fresh w (word_cache_file word) 30 = Some f \<Longrightarrow>
   get_word_definition w api_key word = (json_load f, w)"
  by (simp add: get_word_definition_def)

lemma get_word_definition_no_key:
  "fresh w (word_cache_file word) 30 = None \<Longrightarrow> \<not> has_api_key api_key \<Longrightarrow>
   get_word_definition w api_key word = (Inr (get_basic_definition word), w)"
  by (simp add: get_word_definition_def)

lemma get_word_definition_fetched:
  "fresh w (word_cache_file word) 30 = None \<Longrightarrow> has_api_key api_key \<Longrightarrow>
   response_json (net w (word_request word)) = Some v \<Longrightarrow>
   open_error w (word_cache_file word) = None \<Longrightarrow>
   get_word_definition w api_key word =
     (Inr v, json_dump (w\<lparr>requests := requests w @ [word_request word]\<rparr>) (word_cache_file word) v)"
  by (simp add: get_word_definition_def session_get_def write_json_def)

lemma get_word_definition_failed:
  "fresh w (word_cache_file word) 30 = None \<Longrightarrow> has_api_key api_key \<Longrightarrow>
   response_json (net w (word_request word)) = None \<Longrightarrow>
   get_word_definition w api_key word =
     (Inr (get_basic_definition word),
      logger_error (w\<lparr>requests := requests w @ [word_request word]\<rparr>)
        (''WordsAPI error for word '' @ [CHR 0x27] @ word @ [CHR 0x27]))"
  by (simp add: get_word_definition_def session_get_def write_json_def)

lemma fresh_absent: "files w name = None \<Longrightarrow> fresh w name days = None"
  by (simp add: fresh_def)

lemma search_content_hit:
  "fresh w (search_cache_file md5_hexdigest query subject grade_level) 7 = Some f \<Longrightarrow>
   search_content w md5_hexdigest query subject grade_level limit =
     (and_then (json_load f) (\<lambda>data.
      and_then (py_get data ''content'' (JArr [])) process_content), w)"
  by (simp add: search_content_def)

lemma search_content_fetched:
  "fresh w (search_cache_file md5_hexdigest query subject grade_level) 7 = None \<Longrightarrow>
   response_json (net w (search_content_request query subject grade_level limit)) = Some data \<Longrightarrow>
   open_error w (search_cache_file md5_hexdigest query subject grade_level) = None \<Longrightarrow>
   search_content w md5_hexdigest query subject grade_level limit =
     (and_then (py_get data ''content'' (JArr [])) process_content,
      json_dump (w\<lparr>requests := requests w @ [search_content_request query subject grade_level limit]\<rparr>)
        (search_cache_file md5_hexdigest query subject grade_level) data)"
  by (simp add: search_content_def session_get_def write_json_def)

lemma search_content_failed:
  "fresh w (search_cache_file md5_hexdigest query subject grade_level) 7 = None \<Longrightarrow>
   response_json (net w (search_content_request query subject grade_level limit)) = None \<Longrightarrow>
   search_content w md5_hexdigest query subject grade_level limit =
     (Inr (JArr []),
      logger_error (w\<lparr>requests := requests w @ [search_content_request query subject grade_level limit]\<rparr>)
        ''CK-12 search error'')"
  by (simp add: search_content_def session_get_def write_json_def)

lemma get_content_details_hit:
  "fresh w (content_cache_file content_id) 30 = Some f \<Longrightarrow>
   get_content_details w content_id = (json_load f, w)"
  by (simp add: get_content_details_def)

lemma get_content_details_fetched:
  "fresh w (content_cache_file content_id) 30 = None \<Longrightarrow>
   response_json (net w (content_details_request content_id)) = Some v \<Longrightarrow>
   open_error w (content_cache_file content_id) = None \<Longrightarrow>
   get_content_details w content_id =
     (Inr v, json_dump (w\<lparr>requests := requests w @ [content_details_request content_id]\<rparr>)
               (content_cache_file content_id) v)"
  by (simp add: get_content_details_def session_get_def write_json_def)

lemma get_content_details_failed:
  "fresh w (content_cache_file content_id) 30 = None \<Longrightarrow>
   response_json (net w (content_details_request content_id)) = None \<Longrightarrow>
   get_content_details w content_id =
     (Inr JNull, logger_error (w\<lparr>requests := requests w @ [content_details_request content_id]\<rparr>)
                   ''CK-12 content details error'')"
  by (simp add: get_content_details_def session_get_def write_json_def)

lemma search_books_hit:
  "fresh w (books_cache_file md5_hexdigest query) 7 = Some f \<Longrightarrow>
   search_books w md5_hexdigest query limit grade_level =
     (and_then (json_load f) (\<lambda>data.
      and_then (py_get data ''docs'' (JArr [])) (\<lambda>docs.
      filter_by_grade_level docs grade_level)), w)"
  by (simp add: search_books_def)

lemma search_books_fetched:
  "fresh w (books_cache_file md5_hexdigest query) 7 = None \<Longrightarrow>
   response_json (net w (search_books_request query limit)) = Some data \<Longrightarrow>
   open_error w (books_cache_file md5_hexdigest query) = None \<Longrightarrow>
   search_books w md5_hexdigest query limit grade_level =
     (and_then (py_get data ''docs'' (JArr [])) (\<lambda>docs. filter_by_grade_level docs grade_level),
      json_dump (w\<lparr>requests := requests w @ [search_books_request query limit]\<rparr>)
        (books_cache_file md5_hexdigest query) data)"
  by (simp add: search_books_def session_get_def write_json_def)

lemma search_books_failed:
  "fresh w (books_cache_file md5_hexdigest query) 7 = None \<Longrightarrow>
   response_json (net w (search_books_request query limit)) = None \<Longrightarrow>
   search_books w md5_hexdigest query limit grade_level =
     (Inr (JArr []),
      logger_error (w\<lparr>requests := requests w @ [search_books_request query limit]\<rparr>)
        ''OpenLibrary search error'')"
  by (simp add: search_books_def session_get_def write_json_def)

lemma get_book_details_hit:
  "fresh w (book_cache_file book_id) 30 = Some f \<Longrightarrow>
   get_book_details w book_id = (json_load f, w)"
  by (simp add: get_book_details_def)

lemma get_book_details_fetched:
  "fresh w (book_cache_file book_id) 30 = None \<Longrightarrow>
   response_json (net w (book_details_request book_id)) = Some v \<Longrightarrow>
   open_error w (book_cache_file book_id) = None \<Longrightarrow>
   get_book_details w book_id =
     (Inr v, json_dump (w\<lparr>requests := requests w @ [book_details_request book_id]\<rparr>)
               (book_cache_file book_id) v)"
  by (simp add: get_book_details_def session_get_def write_json_def)

lemma get_book_details_failed:
  "fresh w (book_cache_file book_id) 30 = None \<Longrightarrow>
   response_json (net w (book_details_request book_id)) = None \<Longrightarrow>
   get_book_details w book_id =
     (Inr JNull, logger_error (w\<lparr>requests := requests w @ [book_details_request book_id]\<rparr>)
                   ''OpenLibrary book details error'')"
  by (simp add: get_book_details_def session_get_def write_json_def)

lemma get_apod_hit:
  "fresh w (apod_cache_file date) 1 = Some f \<Longrightarrow> get_apod w api_key date = (json_load f, w)"
  by (simp add: get_apod_def)

lemma get_apod_fetched:
  "fresh w (apod_cache_file date) 1 = None \<Longrightarrow>
   response_json (net w (apod_request api_key date)) = Some v \<Longrightarrow>
   open_error w (apod_cache_file date) = None \<Longrightarrow>
   get_apod w api_key date =
     (Inr v, json_dump (w\<lparr>requests := requests w @ [apod_request api_key date]\<rparr>)
               (apod_cache_file date) v)"
  by (simp add: get_apod_def session_get_def write_json_def)

lemma get_apod_failed:
  "fresh w (apod_cache_file date) 1 = None \<Longrightarrow>
   response_json (net w (apod_request api_key date)) = None \<Longrightarrow>
   get_apod w api_key date =
     (Inr JNull, logger_error (w\<lparr>requests := requests w @ [apod_request api_key date]\<rparr>)
                   ''NASA APOD API error'')"
  by (simp add: get_apod_def session_get_def write_json_def)

lemma get_video_content_unwritable:
  "fresh w (video_cache_file video_id) 7 = None \<Longrightarrow>
   response_json (net w (video_content_request video_id)) = Some v \<Longrightarrow>
   open_error w (video_cache_file video_id) = Some e \<Longrightarrow>
   get_video_content w video_id =
     (Inl e, w\<lparr>requests := requests w @ [video_content_request video_id]\<rparr>)"
  by (simp add: get_video_content_def session_get_def write_json_def)

lemma get_word_definition_unwritable:
  "fresh w (word_cache_file word) 30 = None \<Longrightarrow>
   has_api_key api_key \<Longrightarrow>
   response_json (net w (word_request word)) = Some v \<Longrightarrow>
   open_error w (word_cache_file word) = Some e \<Longrightarrow>
   get_word_definition w api_key word =
     (Inl e, w\<lparr>requests := requests w @ [word_request word]\<rparr>)"
  by (simp add: get_word_definition_def session_get_def write_json_def)

lemma search_content_unwritable:
  "fresh w (search_cache_file md5_hexdigest query subject grade_level) 7 = None \<Longrightarrow>
   response_json (net w (search_content_request query subject grade_level limit)) = Some v \<Longrightarrow>
   open_error w (search_cache_file md5_hexdigest query subject grade_level) = Some e \<Longrightarrow>
   search_content w md5_hexdigest query subject grade_level limit =
     (Inl e, w\<lparr>requests := requests w @ [search_content_request query subject grade_level limit]\<rparr>)"
  by (simp add: search_content_def session_get_def write_json_def)

lemma get_content_details_unwritable:
  "fresh w (content_cache_file content_id) 30 = None \<Longrightarrow>
   response_json (net w (content_details_request content_id)) = Some v \<Longrightarrow>
   open_error w (content_cache_file content_id) = Some e \<Longrightarrow>
   get_content_details w content_id =
     (Inl e, w\<lparr>requests := requests w @ [content_details_request content_id]\<rparr>)"
  by (simp add: get_content_details_def session_get_def write_json_def)

lemma search_books_unwritable:
  "fresh w (books_cache_file md5_hexdigest query) 7 = None \<Longrightarrow>
   response_json (net w (search_books_request query limit)) = Some v \<Longrightarrow>
   open_error w (books_cache_file md5_hexdigest query) = Some e \<Longrightarrow>
   search_books w md5_hexdigest query limit grade_level =
     (Inl e, w\<lparr>requests := requests w @ [search_books_request query limit]\<rparr>)"
  by (simp add: search_books_def session_get_def write_json_def)

lemma get_book_details_unwritable:
  "fresh w (book_cache_file book_id) 30 = None \<Longrightarrow>
   response_json (net w (book_details_request book_id)) = Some v \<Longrightarrow>
   open_error w (book_cache_file book_id) = Some e \<Longrightarrow>
   get_book_details w book_id =
     (Inl e, w\<lparr>requests := requests w @ [book_details_request book_id]\<rparr>)"
  by (simp add: get_book_details_def session_get_def write_json_def)

lemma get_apod_unwritable:
  "fresh w (apod_cache_file date) 1 = None \<Longrightarrow>
   response_json (net w (apod_request api_key date)) = Some v \<Longrightarrow>
   open_error w (apod_cache_file date) = Some e \<Longrightarrow>
   get_apod w api_key date =
     (Inl e, w\<lparr>requests := requests w @ [apod_request api_key date]\<rparr>)"
  by (simp add: get_apod_def session_get_def write_json_def)

lemma get_space_weather_failed:
  "files w ''space_weather.json'' = None \<Longrightarrow>
   response_json (net w (space_weather_request api_key)) = None \<Longrightarrow>
   get_space_weather w api_key =
     (Inr JNull, logger_error (w\<lparr>requests := requests w @ [space_weather_request api_key]\<rparr>)
                   ''NASA Space Weather API error'')"
  by (simp add: get_space_weather_def session_get_def write_json_def)

lemma search_videos_fetched:
  "response_json (net w (search_videos_request topic grade_level limit)) = Some videos \<Longrightarrow>
   search_videos w md5_hexdigest topic grade_level limit =
     (process_videos videos,
      w\<lparr>requests := requests w @ [search_videos_request topic grade_level limit]\<rparr>)"
  by (simp add: search_videos_def session_get_def)

lemma search_videos_failed:
  "response_json (net w (search_videos_request topic grade_level limit)) = None \<Longrightarrow>
   search_videos w md5_hexdigest topic grade_level limit =
     (get_cached_videos w md5_hexdigest topic grade_level,
      logger_error (w\<lparr>requests := requests w @ [search_videos_request topic grade_level limit]\<rparr>)
        ''Khan Academy API error'')"
  by (simp add: search_videos_def session_get_def get_cached_videos_def logger_error_def)

lemma get_exercises_fetched:
  "response_json (net w (exercises_request subject grade_level)) = Some exercises \<Longrightarrow>
   get_exercises w subject grade_level =
     (process_exercises exercises,
      w\<lparr>requests := requests w @ [exercises_request subject grade_level]\<rparr>)"
  by (simp add: get_exercises_def session_get_def)

lemma get_exercises_failed:
  "response_json (net w (exercises_request subject grade_level)) = None \<Longrightarrow>
   get_exercises w subject grade_level =
     (Inr (JArr []),
      logger_error (w\<lparr>requests := requests w @ [exercises_request subject grade_level]\<rparr>)
        ''Error fetching exercises'')"
  by (simp add: get_exercises_def session_get_def)

lemma of_char_lower_char:
  "(of_char (lower_char c) :: nat) = (if is_upper c then of_char c + 32 else of_char c)"
  by (simp add: lower_char_def is_upper_def)

lemma of_char_capital:
  "(of_char (capital c) :: nat) = (if is_small c then of_char c - 32 else of_char c)"
proof (cases "is_small c")
  case True
  then have "(of_char c :: nat) - 32 < 256"
    by (simp add: is_small_def) arith
  with True show ?thesis by (simp add: capital_def)
next
  case False
  then show ?thesis by (simp add: capital_def)
qed


lemma is_small_not_upper: "is_small c \<Longrightarrow> \<not> is_upper c"
  by (simp add: is_small_def is_upper_def) arith

lemma is_upper_capital: "is_small c \<Longrightarrow> is_upper (capital c)"
  by (simp add: of_char_capital is_upper_def) (simp add: is_small_def, arith)

lemma is_small_lower_char: "is_upper c \<Longrightarrow> is_small (lower_char c)"
  by (simp add: of_char_lower_char is_small_def) (auto simp add: is_upper_def)

lemma lower_char_capital [simp]: "lower_char (capital c) = lower_char c"
proof (cases "is_small c")
  case True
  have "(of_char (lower_char (capital c)) :: nat) = of_char c"
    using True is_upper_capital [OF True]
    by (simp add: of_char_lower_char of_char_capital) (simp add: is_small_def, arith)
  moreover have "lower_char c = c"
    using is_small_not_upper [OF True] by (simp add: lower_char_def)
  ultimately show ?thesis by simp
next
  case False
  then show ?thesis by (simp add: capital_def)
qed

lemma capital_lower_char [simp]: "capital (lower_char c) = capital c"
proof (cases "is_upper c")
  case True
  have "(of_char (capital (lower_char c)) :: nat) = of_char c"
    using True is_small_lower_char [OF True]
    by (simp add: of_char_lower_char of_char_capital)
  moreover have "capital c = c"
    using is_small_not_upper [of c] True by (auto simp add: capital_def)
  ultimately show ?thesis by simp
next
  case False
  then show ?thesis by (simp add: lower_char_def)
qed

lemma lower_char_idem [simp]: "lower_char (lower_char c) = lower_char c"
  using is_small_not_upper [of "lower_char c"] is_small_lower_char [of c]
  by (cases "is_upper c") (auto simp add: lower_char_def)

lemma same_lower_iff_same_capital: "lower_char c = lower_char d \<longleftrightarrow> capital c = capital d"
  by (metis lower_char_capital capital_lower_char)

lemma str_lower_idem [simp]: "str_lower (str_lower s) = str_lower s"
  by (simp add: str_lower_def)

lemma str_lower_capitals [simp]: "str_lower (map capital s) = str_lower s"
  by (simp add: str_lower_def)

lemma same_lower_iff_same_capitals:
  "str_lower u = str_lower w \<longleftrightarrow> map capital u = map capital w"
proof (induction u arbitrary: w)
  case Nil
  then show ?case by (simp add: str_lower_def)
next
  case (Cons c u)
  then show ?case
    by (cases w) (auto simp add: str_lower_def same_lower_iff_same_capital)
qed

lemma word_cache_file_eq_iff:
  "word_cache_file u = word_cache_file w \<longleftrightarrow> map capital u = map capital w"
  by (simp add: word_cache_file_def same_lower_iff_same_capitals)

lemma word_cache_file_lower: "word_cache_file (str_lower word) = word_cache_file word"
  by (simp add: word_cache_file_def)

lemma basic_definitions_keys_lower:
  "map_of basic_definitions k = Some d \<Longrightarrow> str_lower k = k"
  by (auto simp add: basic_definitions_def str_lower_def lower_char_def is_upper_def
        split: if_splits)

lemma get_basic_definition_shape:
  "\<exists>kvs rs. get_basic_definition word = JObj kvs \<and> map_of kvs ''word'' \<noteq> None
     \<and> map_of kvs ''results'' = Some (JArr rs) \<and> rs \<noteq> []"
  by (simp add: get_basic_definition_def dict_get_def basic_definitions_def definition_of_def)

lemma truthy_basic_definition: "truthy (get_basic_definition word)"
  using get_basic_definition_shape [of word] by auto

lemma response_json_None:
  "response_json out = None \<longleftrightarrow>
     out = TransportError \<or> (\<exists>status data. out = Response status data \<and> 400 \<le> status \<and> status < 600)"
  by (cases out) auto

lemma days_less_iff: "(a::int) div 86400 < d \<longleftrightarrow> a < d * 86400"
proof -
  have "a = 86400 * (a div 86400) + a mod 86400" by simp
  moreover have "0 \<le> a mod 86400" by simp
  moreover have "a mod 86400 < 86400" by simp
  ultimately show ?thesis by linarith
qed

lemma fresh_seconds:
  "fresh w name days =
     (case files w name of
        None \<Rightarrow> None
      | Some f \<Rightarrow> if now w - mtime f < days * 86400 then Some f else None)"
  by (simp add: fresh_def cache_age_days_def days_less_iff split: option.splits)

lemma fresh_expired:
  "files w name = Some f \<Longrightarrow> days * 86400 \<le> now w - mtime f \<Longrightarrow> fresh w name days = None"
  by (simp add: fresh_seconds)

lemma fresh_remove_file [simp]: "fresh (remove_file w name) name days = None"
  by (simp add: fresh_def remove_file_def)

lemma open_error_remove_file [simp]: "open_error (remove_file w name) name = open_error w name"
  by (auto simp add: open_error_def remove_file_def)

lemma net_remove_file [simp]: "net (remove_file w name) = net w"
  by (simp add: remove_file_def)

lemma requests_json_dump [simp]: "requests (json_dump w name v) = requests w"
  by (simp add: json_dump_def)

lemma requests_logger_error [simp]: "requests (logger_error w msg) = requests w"
  by (simp add: logger_error_def)

lemma get_video_content_miss:
  assumes "fresh w (video_cache_file video_id) 7 = None"
  shows "fst (get_video_content w video_id)
           = fst (get_video_content (remove_file w (video_cache_file video_id)) video_id)
       \<and> requests (snd (get_video_content w video_id))
           = requests w @ [video_content_request video_id]"
  using assms
  by (cases "response_json (net w (video_content_request video_id))"; cases "open_error w (video_cache_file video_id)")
     (simp_all add: get_video_content_fetched get_video_content_failed get_video_content_unwritable)

lemma get_content_details_miss:
  assumes "fresh w (content_cache_file content_id) 30 = None"
  shows "fst (get_content_details w content_id)
           = fst (get_content_details (remove_file w (content_cache_file content_id)) content_id)
       \<and> requests (snd (get_content_details w content_id))
           = requests w @ [content_details_request content_id]"
  using assms
  by (cases "response_json (net w (content_details_request content_id))"; cases "open_error w (content_cache_file content_id)")
     (simp_all add: get_content_details_fetched get_content_details_failed get_content_details_unwritable)

lemma get_book_details_miss:
  assumes "fresh w (book_cache_file book_id) 30 = None"
  shows "fst (get_book_details w book_id)
           = fst (get_book_details (remove_file w (book_cache_file book_id)) book_id)
       \<and> requests (snd (get_book_details w book_id))
           = requests w @ [book_details_request book_id]"
  using assms
  by (cases "response_json (net w (book_details_request book_id))"; cases "open_error w (book_cache_file book_id)")
     (simp_all add: get_book_details_fetched get_book_details_failed get_book_details_unwritable)

lemma search_content_miss:
  assumes "fresh w (search_cache_file md5_hexdigest query subject grade_level) 7 = None"
  shows "fst (search_content w md5_hexdigest query subject grade_level limit)
           = fst (search_content
                    (remove_file w (search_cache_file md5_hexdigest query subject grade_level))
                    md5_hexdigest query subject grade_level limit)
       \<and> requests (snd (search_content w md5_hexdigest query subject grade_level limit))
           = requests w @ [search_content_request query subject grade_level limit]"
  using assms
  by (cases "response_json (net w (search_content_request query subject grade_level limit))"; cases "open_error w (search_cache_file md5_hexdigest query subject grade_level)")
     (simp_all add: search_content_fetched search_content_failed search_content_unwritable)

lemma search_books_miss:
  assumes "fresh w (books_cache_file md5_hexdigest query) 7 = None"
  shows "fst (search_books w md5_hexdigest query limit grade_level)
           = fst (search_books (remove_file w (books_cache_file md5_hexdigest query))
                    md5_hexdigest query limit grade_level)
       \<and> requests (snd (search_books w md5_hexdigest query limit grade_level))
           = requests w @ [search_books_request query limit]"
  using assms
  by (cases "response_json (net w (search_books_request query limit))"; cases "open_error w (books_cache_file md5_hexdigest query)")
     (simp_all add: search_books_fetched search_books_failed search_books_unwritable)

lemma get_apod_miss:
  assumes "fresh w (apod_cache_file date) 1 = None"
  shows "fst (get_apod w api_key date)
           = fst (get_apod (remove_file w (apod_cache_file date)) api_key date)
       \<and> requests (snd (get_apod w api_key date))
           = requests w @ [apod_request api_key date]"
  using assms
  by (cases "response_json (net w (apod_request api_key date))"; cases "open_error w (apod_cache_file date)")
     (simp_all add: get_apod_fetched get_apod_failed get_apod_unwritable)

lemma get_word_definition_miss:
  assumes "fresh w (word_cache_file word) 30 = None" and "has_api_key api_key"
  shows "fst (get_word_definition w api_key word)
           = fst (get_word_definition (remove_file w (word_cache_file word)) api_key word)
       \<and> requests (snd (get_word_definition w api_key word))
           = requests w @ [word_request word]"
  using assms
  by (cases "response_json (net w (word_request word))"; cases "open_error w (word_cache_file word)")
     (simp_all add: get_word_definition_fetched get_word_definition_failed get_word_definition_unwritable)

lemma json_load_malformed: "stored f = Malformed \<Longrightarrow> json_load f = Inl JSONDecodeError"
  by (simp add: json_load_def)

lemma get_subject_topics_result:
  "\<exists>topics w3. get_subject_topics w subject = (Inr topics, w3)"
  by (simp add: get_subject_topics_def session_get_def split: option.splits)


lemma and_then_Inr:
  "(and_then r f = Inr y) = (\<exists>v. r = Inr v \<and> f v = Inr y)"
  by (cases r) simp_all

lemma get_exercises_list:
  "fst (get_exercises w subject grade_level) = Inr x \<Longrightarrow> \<exists>es. x = JArr es"
  by (cases "response_json (net w (exercises_request subject grade_level))")
     (auto simp add: get_exercises_fetched get_exercises_failed process_exercises_def
        and_then_Inr)

section \<open>The CK-12 search scenario\<close>

text \<open>
  Claim C1, as it holds of the code. \<^verbatim>\<open>search_content("fractions", subject="math",
  grade_level=4)\<close> (so \<^verbatim>\<open>limit\<close> has its default, 20), called when its cache file does not
  exist, sends exactly one request, to \<^verbatim>\<open>/content\<close> with \<^verbatim>\<open>q\<close>, \<^verbatim>\<open>subject\<close> and
  \<^verbatim>\<open>grade_level\<close> as given (and \<^verbatim>\<open>limit\<close>). When the answer has status 200 and a \<^verbatim>\<open>content\<close>
  list of two items that are JSON objects, and the cache file can be opened (its name is
  built from an md5 digest, and a real digest has no \<^verbatim>\<open>/\<close>), the response is cached as it
  came and the call returns the list of the two normalized records: the nine fields
  \<^verbatim>\<open>id\<close>, \<^verbatim>\<open>title\<close>, \<^verbatim>\<open>description\<close>, \<^verbatim>\<open>type\<close>, \<^verbatim>\<open>subject\<close>, \<^verbatim>\<open>grade_level\<close>, \<^verbatim>\<open>url\<close>,
  \<^verbatim>\<open>embed_url\<close> and \<^verbatim>\<open>difficulty\<close> of each item, \<^verbatim>\<open>None\<close> where the item lacks the field and
  \<^verbatim>\<open>'medium'\<close> for a missing difficulty. A second call with the same arguments, at any time
  at which the entry is younger than 7 days, sends no request, changes nothing, and
  returns the same two normalized records, now projected from the cached payload.
\<close>

theorem search_content_fractions_scenario:
  assumes empty: "files w (search_cache_file md5_hexdigest ''fractions'' (Some ''math'') (Some 4)) = None"
    and ok: "net w (search_content_request ''fractions'' (Some ''math'') (Some 4) 20)
               = Response 200 (JObj data)"
    and two: "map_of data ''content'' = Some (JArr [JObj a, JObj b])"
    and writable:
      "open_error w (search_cache_file md5_hexdigest ''fractions'' (Some ''math'') (Some 4)) = None"
    and ttl: "(t - now w) div 86400 < 7"
  shows "requests (snd (search_content w md5_hexdigest ''fractions'' (Some ''math'') (Some 4) 20))
           = requests w @
             [\<lparr>url = ''https://www.ck12.org/api/v1/content'',
               params = [(''q'', JStr ''fractions''), (''limit'', JInt 20),
                         (''subject'', JStr ''math''), (''grade_level'', JInt 4)]\<rparr>]
     \<and> files (snd (search_content w md5_hexdigest ''fractions'' (Some ''math'') (Some 4) 20))
          (search_cache_file md5_hexdigest ''fractions'' (Some ''math'') (Some 4))
        = Some \<lparr>stored = Doc (JObj data), mtime = now w\<rparr>
     \<and> fst (search_content w md5_hexdigest ''fractions'' (Some ''math'') (Some 4) 20)
        = Inr (JArr
            [JObj [(''id'', dict_get a ''id'' JNull),
                   (''title'', dict_get a ''title'' JNull),
                   (''description'', dict_get a ''description'' JNull),
                   (''type'', dict_get a ''type'' JNull),
                   (''subject'', dict_get a ''subject'' JNull),
                   (''grade_level'', dict_get a ''grade_level'' JNull),
                   (''url'', dict_get a ''url'' JNull),
                   (''embed_url'', dict_get a ''embed_url'' JNull),
                   (''difficulty'', dict_get a ''difficulty'' (JStr ''medium''))],
             JObj [(''id'', dict_get b ''id'' JNull),
                   (''title'', dict_get b ''title'' JNull),
                   (''description'', dict_get b ''description'' JNull),
                   (''type'', dict_get b ''type'' JNull),
                   (''subject'', dict_get b ''subject'' JNull),
                   (''grade_level'', dict_get b ''grade_level'' JNull),
                   (''url'', dict_get b ''url'' JNull),
                   (''embed_url'', dict_get b ''embed_url'' JNull),
                   (''difficulty'', dict_get b ''difficulty'' (JStr ''medium''))]])
     \<and> search_content
          (later (snd (search_content w md5_hexdigest ''fractions'' (Some ''math'') (Some 4) 20)) t n)
          md5_hexdigest ''fractions'' (Some ''math'') (Some 4) 20
        = (fst (search_content w md5_hexdigest ''fractions'' (Some ''math'') (Some 4) 20),
           later (snd (search_content w md5_hexdigest ''fractions'' (Some ''math'') (Some 4) 20)) t n)"
proof -
  let ?f = "search_cache_file md5_hexdigest ''fractions'' (Some ''math'') (Some 4)"
  let ?r = "search_content_request ''fractions'' (Some ''math'') (Some 4) 20"
  let ?w1 = "json_dump (w\<lparr>requests := requests w @ [?r]\<rparr>) ?f (JObj data)"
  have miss: "fresh w ?f 7 = None"
    using empty by (rule fresh_absent)
  have resp: "response_json (net w ?r) = Some (JObj data)"
    using ok by simp
  have first: "search_content w md5_hexdigest ''fractions'' (Some ''math'') (Some 4) 20
      = (process_content (JArr [JObj a, JObj b]), ?w1)"
    using search_content_fetched [OF miss resp writable] two by simp
  have req: "?r = \<lparr>url = ''https://www.ck12.org/api/v1/content'',
               params = [(''q'', JStr ''fractions''), (''limit'', JInt 20),
                         (''subject'', JStr ''math''), (''grade_level'', JInt 4)]\<rparr>"
    by (simp add: search_content_request_def ck12_base_url_def)
  have hit: "fresh (later ?w1 t n) ?f 7 = Some \<lparr>stored = Doc (JObj data), mtime = now w\<rparr>"
    using fresh_after_dump [of t "w\<lparr>requests := requests w @ [?r]\<rparr>" 7 ?f "JObj data" n] ttl
    by simp
  have second: "search_content (later ?w1 t n) md5_hexdigest ''fractions'' (Some ''math'') (Some 4) 20
     = (process_content (JArr [JObj a, JObj b]), later ?w1 t n)"
    using search_content_hit [OF hit] two by (simp add: json_load_def)
  have records: "process_content (JArr [JObj a, JObj b])
      = Inr (JArr
            [JObj [(''id'', dict_get a ''id'' JNull),
                   (''title'', dict_get a ''title'' JNull),
                   (''description'', dict_get a ''description'' JNull),
                   (''type'', dict_get a ''type'' JNull),
                   (''subject'', dict_get a ''subject'' JNull),
                   (''grade_level'', dict_get a ''grade_level'' JNull),
                   (''url'', dict_get a ''url'' JNull),
                   (''embed_url'', dict_get a ''embed_url'' JNull),
                   (''difficulty'', dict_get a ''difficulty'' (JStr ''medium''))],
             JObj [(''id'', dict_get b ''id'' JNull),
                   (''title'', dict_get b ''title'' JNull),
                   (''description'', dict_get b ''description'' JNull),
                   (''type'', dict_get b ''type'' JNull),
                   (''subject'', dict_get b ''subject'' JNull),
                   (''grade_level'', dict_get b ''grade_level'' JNull),
                   (''url'', dict_get b ''url'' JNull),
                   (''embed_url'', dict_get b ''embed_url'' JNull),
                   (''difficulty'', dict_get b ''difficulty'' (JStr ''medium''))]])"
    by (simp add: process_content_def)
  have stored: "files ?w1 ?f = Some \<lparr>stored = Doc (JObj data), mtime = now w\<rparr>"
    by (simp add: json_dump_def)
  show ?thesis
    unfolding first second fst_conv snd_conv records req [symmetric]
    using stored by simp
qed

theorem search_content_fractions_scenario_witness:
  "requests (snd (search_content
       (empty_world 0 (always (Response 200 (JObj
          [(''content'', JArr [JObj [(''id'', JInt 1), (''difficulty'', JStr ''easy'')],
                               JObj [(''id'', JInt 2)]])]))))
       id ''fractions'' (Some ''math'') (Some 4) 20))
     = [\<lparr>url = ''https://www.ck12.org/api/v1/content'',
         params = [(''q'', JStr ''fractions''), (''limit'', JInt 20),
                   (''subject'', JStr ''math''), (''grade_level'', JInt 4)]\<rparr>]
   \<and> fst (search_content
       (empty_world 0 (always (Response 200 (JObj
          [(''content'', JArr [JObj [(''id'', JInt 1), (''difficulty'', JStr ''easy'')],
                               JObj [(''id'', JInt 2)]])]))))
       id ''fractions'' (Some ''math'') (Some 4) 20)
     = Inr (JArr
         [JObj [(''id'', JInt 1), (''title'', JNull), (''description'', JNull), (''type'', JNull),
                (''subject'', JNull), (''grade_level'', JNull), (''url'', JNull),
                (''embed_url'', JNull), (''difficulty'', JStr ''easy'')],
          JObj [(''id'', JInt 2), (''title'', JNull), (''description'', JNull), (''type'', JNull),
                (''subject'', JNull), (''grade_level'', JNull), (''url'', JNull),
                (''embed_url'', JNull), (''difficulty'', JStr ''medium'')]])
   \<and> fst (search_content
       (later (snd (search_content
          (empty_world 0 (always (Response 200 (JObj
             [(''content'', JArr [JObj [(''id'', JInt 1), (''difficulty'', JStr ''easy'')],
                                  JObj [(''id'', JInt 2)]])]))))
          id ''fractions'' (Some ''math'') (Some 4) 20)) 86400 (always TransportError))
       id ''fractions'' (Some ''math'') (Some 4) 20)
     = Inr (JArr
         [JObj [(''id'', JInt 1), (''title'', JNull), (''description'', JNull), (''type'', JNull),
                (''subject'', JNull), (''grade_level'', JNull), (''url'', JNull),
                (''embed_url'', JNull), (''difficulty'', JStr ''easy'')],
          JObj [(''id'', JInt 2), (''title'', JNull), (''description'', JNull), (''type'', JNull),
                (''subject'', JNull), (''grade_level'', JNull), (''url'', JNull),
                (''embed_url'', JNull), (''difficulty'', JStr ''medium'')]])"
  using search_content_fractions_scenario
    [where w = "empty_world 0 (always (Response 200 (JObj
          [(''content'', JArr [JObj [(''id'', JInt 1), (''difficulty'', JStr ''easy'')],
                               JObj [(''id'', JInt 2)]])])))"
       and md5_hexdigest = id
       and data = "[(''content'', JArr [JObj [(''id'', JInt 1), (''difficulty'', JStr ''easy'')],
                                        JObj [(''id'', JInt 2)]])]"
       and a = "[(''id'', JInt 1), (''difficulty'', JStr ''easy'')]" and b = "[(''id'', JInt 2)]"
       and t = 86400 and n = "always TransportError"]
  by (simp add: world_defs write_defs file_names dict_get_def)

text \<open>
  Claim C1 as stated fails when the two items of the content list are not JSON objects
  (here two strings): \<^verbatim>\<open>_process_content\<close> calls \<^verbatim>\<open>get\<close> on each item, and the call
  raises \<^verbatim>\<open>AttributeError\<close> after the one request.
\<close>

theorem two_items_that_are_no_records:
  "fst (search_content
          (empty_world 0 (always (Response 200 (JObj
             [(''content'', JArr [JStr ''fractions-1'', JStr ''fractions-2''])]))))
          id ''fractions'' (Some ''math'') (Some 4) 20)
     = Inl AttributeError
   \<and> requests (snd (search_content
          (empty_world 0 (always (Response 200 (JObj
             [(''content'', JArr [JStr ''fractions-1'', JStr ''fractions-2''])]))))
          id ''fractions'' (Some ''math'') (Some 4) 20))
     = [search_content_request ''fractions'' (Some ''math'') (Some 4) 20]"
  by (simp add: search_content_def session_get_def write_defs json_dump_def
        process_content_def fresh_def world_defs file_names)

section \<open>Cache first, or network first\<close>

text \<open>
  Claim C2, as it holds of the code. The operations that test the age of their cache file
  (\<^verbatim>\<open>get_video_content\<close>, \<^verbatim>\<open>get_content_details\<close>, \<^verbatim>\<open>search_content\<close>, \<^verbatim>\<open>search_books\<close>,
  \<^verbatim>\<open>get_book_details\<close>, \<^verbatim>\<open>get_word_definition\<close>, \<^verbatim>\<open>get_apod\<close>) consult the cache first: when the file
  exists and is younger than the operation's time-to-live, the call returns what
  \<^verbatim>\<open>json.load\<close> gives (for the two searches, its projection) and leaves the world as it
  was, so no request is sent; a request is sent only after a miss.
  \<^verbatim>\<open>search_videos\<close> goes the other way round: it always sends its request first, returns
  the processed response when the request succeeds, and reads its cache file only when
  the request fails.
\<close>

theorem cache_consulted_first:
  "(\<forall>f. fresh w (video_cache_file video_id) 7 = Some f \<longrightarrow>
       get_video_content w video_id = (json_load f, w))
   \<and> (\<forall>f. fresh w (content_cache_file content_id) 30 = Some f \<longrightarrow>
       get_content_details w content_id = (json_load f, w))
   \<and> (\<forall>f. fresh w (search_cache_file md5_hexdigest query subject grade_level) 7 = Some f \<longrightarrow>
       search_content w md5_hexdigest query subject grade_level limit =
         (and_then (json_load f) (\<lambda>data.
          and_then (py_get data ''content'' (JArr [])) process_content), w))
   \<and> (\<forall>f. fresh w (books_cache_file md5_hexdigest query) 7 = Some f \<longrightarrow>
       search_books w md5_hexdigest query limit grade_level =
         (and_then (json_load f) (\<lambda>data.
          and_then (py_get data ''docs'' (JArr [])) (\<lambda>docs.
          filter_by_grade_level docs grade_level)), w))
   \<and> (\<forall>f. fresh w (book_cache_file book_id) 30 = Some f \<longrightarrow>
       get_book_details w book_id = (json_load f, w))
   \<and> (\<forall>f. fresh w (word_cache_file word) 30 = Some f \<longrightarrow>
       get_word_definition w api_key word = (json_load f, w))
   \<and> (\<forall>f. fresh w (apod_cache_file date) 1 = Some f \<longrightarrow>
       get_apod w nasa_key date = (json_load f, w))
   \<and> requests (snd (search_videos w md5_hexdigest topic grade_level limit))
       = requests w @ [search_videos_request topic grade_level limit]
   \<and> (\<forall>videos. response_json (net w (search_videos_request topic grade_level limit)) = Some videos \<longrightarrow>
       fst (search_videos w md5_hexdigest topic grade_level limit) = process_videos videos)
   \<and> (response_json (net w (search_videos_request topic grade_level limit)) = None \<longrightarrow>
       fst (search_videos w md5_hexdigest topic grade_level limit)
         = get_cached_videos w md5_hexdigest topic grade_level)"
proof (intro conjI impI allI)
  show "requests (snd (search_videos w md5_hexdigest topic grade_level limit))
       = requests w @ [search_videos_request topic grade_level limit]"
    by (cases "response_json (net w (search_videos_request topic grade_level limit))")
       (simp_all add: search_videos_fetched search_videos_failed logger_error_def)
qed (simp_all add: get_video_content_hit get_content_details_hit search_content_hit
       search_books_hit get_book_details_hit get_word_definition_hit get_apod_hit
       search_videos_fetched search_videos_failed)

theorem cache_consulted_first_witness:
  "get_video_content (cached_world (Doc sample_doc) 0 3600 (always TransportError)) ''v1''
     = (Inr sample_doc, cached_world (Doc sample_doc) 0 3600 (always TransportError))
   \<and> get_content_details (cached_world (Doc sample_doc) 0 3600 (always TransportError)) ''c1''
     = (Inr sample_doc, cached_world (Doc sample_doc) 0 3600 (always TransportError))
   \<and> search_content (cached_world (Doc sample_doc) 0 3600 (always TransportError))
        id ''fractions'' None None 20
     = (Inr (JArr []), cached_world (Doc sample_doc) 0 3600 (always TransportError))
   \<and> search_books (cached_world (Doc sample_doc) 0 3600 (always TransportError))
        id ''fractions'' 20 None
     = (Inr (JArr []), cached_world (Doc sample_doc) 0 3600 (always TransportError))
   \<and> get_book_details (cached_world (Doc sample_doc) 0 3600 (always TransportError)) ''b1''
     = (Inr sample_doc, cached_world (Doc sample_doc) 0 3600 (always TransportError))
   \<and> get_word_definition (cached_world (Doc sample_doc) 0 3600 (always TransportError))
        (Some ''key'') ''happy''
     = (Inr sample_doc, cached_world (Doc sample_doc) 0 3600 (always TransportError))
   \<and> get_apod (cached_world (Doc sample_doc) 0 3600 (always TransportError)) None None
     = (Inr sample_doc, cached_world (Doc sample_doc) 0 3600 (always TransportError))
   \<and> requests (snd (search_videos (khan_world (Doc sample_videos) 0 3600 (always TransportError))
                       id ''fractions'' (Some 3) 20))
     = [search_videos_request ''fractions'' (Some 3) 20]
   \<and> fst (search_videos (khan_world (Doc sample_videos) 0 3600 (always TransportError))
            id ''fractions'' (Some 3) 20)
     = Inr sample_videos
   \<and> fst (search_videos (khan_world (Doc sample_videos) 0 3600 (always (Response 200 (JArr []))))
            id ''fractions'' (Some 3) 20)
     = Inr (JArr [])"
proof -
  let ?W = "cached_world (Doc sample_doc) 0 3600 (always TransportError)"
  let ?K = "khan_world (Doc sample_videos) 0 3600 (always TransportError)"
  let ?V = "khan_world (Doc sample_videos) 0 3600 (always (Response 200 (JArr [])))"
  let ?f = "\<lparr>stored = Doc sample_doc, mtime = 0\<rparr>"
  have f1: "fresh ?W (video_cache_file ''v1'') 7 = Some ?f"
    and f2: "fresh ?W (content_cache_file ''c1'') 30 = Some ?f"
    and f3: "fresh ?W (search_cache_file id ''fractions'' None None) 7 = Some ?f"
    and f4: "fresh ?W (books_cache_file id ''fractions'') 7 = Some ?f"
    and f5: "fresh ?W (book_cache_file ''b1'') 30 = Some ?f"
    and f6: "fresh ?W (word_cache_file ''happy'') 30 = Some ?f"
    and f7: "fresh ?W (apod_cache_file None) 1 = Some ?f"
    by (simp_all add: world_defs fresh_def cache_age_days_def file_names)
  have r: "requests ?K = []"
    and n1: "response_json (net ?K (search_videos_request ''fractions'' (Some 3) 20)) = None"
    and n2: "response_json (net ?V (search_videos_request ''fractions'' (Some 3) 20))
               = Some (JArr [])"
    and c: "get_cached_videos ?K id ''fractions'' (Some 3) = Inr sample_videos"
    by (simp_all add: world_defs get_cached_videos_def json_load_def file_names)
  have l: "json_load ?f = Inr sample_doc"
    by (simp add: json_load_def)
  have p: "process_content (JArr []) = Inr (JArr [])" "process_videos (JArr []) = Inr (JArr [])"
    by (simp_all add: process_content_def process_videos_def)
  show ?thesis
    using cache_consulted_first
      [where w = ?W and video_id = "''v1''" and content_id = "''c1''" and md5_hexdigest = id
         and query = "''fractions''" and subject = None and grade_level = None and limit = 20
         and book_id = "''b1''" and word = "''happy''" and api_key = "Some ''key''"
         and date = None and nasa_key = None]
      cache_consulted_first
      [where w = ?K and md5_hexdigest = id and grade_level = "Some 3" and limit = 20
         and topic = "''fractions''"]
      cache_consulted_first
      [where w = ?V and md5_hexdigest = id and grade_level = "Some 3" and limit = 20
         and topic = "''fractions''"]
      f1 f2 f3 f4 f5 f6 f7 r n1 n2 c l
    by (simp add: sample_doc_def p)
qed

text \<open>
  Claim C2 as stated fails for \<^verbatim>\<open>search_videos\<close>: with a cache entry for the same topic and
  grade level on disk, the call still sends a request, and it returns the processed
  response, not the cached videos.
\<close>

theorem search_videos_fetches_despite_cache:
  "get_cached_videos (khan_world (Doc sample_videos) 0 3600 (always (Response 200 (JArr []))))
       id ''fractions'' (Some 3) = Inr sample_videos
   \<and> search_videos (khan_world (Doc sample_videos) 0 3600 (always (Response 200 (JArr []))))
       id ''fractions'' (Some 3) 10
     = (Inr (JArr []),
        (khan_world (Doc sample_videos) 0 3600 (always (Response 200 (JArr []))))
          \<lparr>requests := [search_videos_request ''fractions'' (Some 3) 10]\<rparr>)"
  by (simp add: search_videos_def session_get_def get_cached_videos_def json_load_def
        process_videos_def world_defs file_names)

section \<open>When the fetch fails\<close>

text \<open>
  Claim C3, as it holds of the code. A fetch fails when \<^verbatim>\<open>session.get\<close> raises or the
  status is from 400 to 599. When an operation has missed its cache and its fetch fails,
  it has sent that one request, logs one error and returns an empty result without
  raising: \<^verbatim>\<open>[]\<close> for \<^verbatim>\<open>search_content\<close>, \<^verbatim>\<open>get_exercises\<close> and \<^verbatim>\<open>search_books\<close>; \<^verbatim>\<open>None\<close>
  for \<^verbatim>\<open>get_content_details\<close>, \<^verbatim>\<open>get_video_content\<close>, \<^verbatim>\<open>get_book_details\<close>, \<^verbatim>\<open>get_apod\<close>
  and, when it has no cache file, \<^verbatim>\<open>get_space_weather\<close>; the built-in definition for
  \<^verbatim>\<open>get_word_definition\<close>. \<^verbatim>\<open>search_videos\<close> logs the error and returns what its cache
  file holds when there is one (raising when the file does not parse), and \<^verbatim>\<open>[]\<close> only
  when there is none.
\<close>

theorem fetch_failure_is_logged_and_empty:
  "(response_json out = None \<longleftrightarrow>
      out = TransportError \<or> (\<exists>status data. out = Response status data \<and> 400 \<le> status \<and> status < 600))
   \<and> (fresh w (search_cache_file md5_hexdigest query subject grade_level) 7 = None
        \<and> response_json (net w (search_content_request query subject grade_level limit)) = None \<longrightarrow>
       search_content w md5_hexdigest query subject grade_level limit =
         (Inr (JArr []),
          logger_error (w\<lparr>requests := requests w @ [search_content_request query subject grade_level limit]\<rparr>)
            ''CK-12 search error''))
   \<and> (fresh w (content_cache_file content_id) 30 = None
        \<and> response_json (net w (content_details_request content_id)) = None \<longrightarrow>
       get_content_details w content_id =
         (Inr JNull,
          logger_error (w\<lparr>requests := requests w @ [content_details_request content_id]\<rparr>)
            ''CK-12 content details error''))
   \<and> (fresh w (video_cache_file video_id) 7 = None
        \<and> response_json (net w (video_content_request video_id)) = None \<longrightarrow>
       get_video_content w video_id =
         (Inr JNull,
          logger_error (w\<lparr>requests := requests w @ [video_content_request video_id]\<rparr>)
            (''Error fetching video '' @ video_id)))
   \<and> (response_json (net w (exercises_request subject' grade_level)) = None \<longrightarrow>
       get_exercises w subject' grade_level =
         (Inr (JArr []),
          logger_error (w\<lparr>requests := requests w @ [exercises_request subject' grade_level]\<rparr>)
            ''Error fetching exercises''))
   \<and> (fresh w (books_cache_file md5_hexdigest query) 7 = None
        \<and> response_json (net w (search_books_request query limit)) = None \<longrightarrow>
       search_books w md5_hexdigest query limit grade_level =
         (Inr (JArr []),
          logger_error (w\<lparr>requests := requests w @ [search_books_request query limit]\<rparr>)
            ''OpenLibrary search error''))
   \<and> (fresh w (book_cache_file book_id) 30 = None
        \<and> response_json (net w (book_details_request book_id)) = None \<longrightarrow>
       get_book_details w book_id =
         (Inr JNull,
          logger_error (w\<lparr>requests := requests w @ [book_details_request book_id]\<rparr>)
            ''OpenLibrary book details error''))
   \<and> (fresh w (apod_cache_file date) 1 = None
        \<and> response_json (net w (apod_request nasa_key date)) = None \<longrightarrow>
       get_apod w nasa_key date =
         (Inr JNull,
          logger_error (w\<lparr>requests := requests w @ [apod_request nasa_key date]\<rparr>)
            ''NASA APOD API error''))
   \<and> (files w ''space_weather.json'' = None
        \<and> response_json (net w (space_weather_request nasa_key)) = None \<longrightarrow>
       get_space_weather w nasa_key =
         (Inr JNull,
          logger_error (w\<lparr>requests := requests w @ [space_weather_request nasa_key]\<rparr>)
            ''NASA Space Weather API error''))
   \<and> (fresh w (word_cache_file word) 30 = None \<and> has_api_key api_key
        \<and> response_json (net w (word_request word)) = None \<longrightarrow>
       get_word_definition w api_key word =
         (Inr (get_basic_definition word),
          logger_error (w\<lparr>requests := requests w @ [word_request word]\<rparr>)
            (''WordsAPI error for word '' @ [CHR 0x27] @ word @ [CHR 0x27])))
   \<and> (response_json (net w (search_videos_request topic grade_level limit)) = None \<longrightarrow>
       search_videos w md5_hexdigest topic grade_level limit =
         (case files w (khan_search_cache_file md5_hexdigest topic grade_level) of
            Some f \<Rightarrow> json_load f
          | None \<Rightarrow> Inr (JArr []),
          logger_error (w\<lparr>requests := requests w @ [search_videos_request topic grade_level limit]\<rparr>)
            ''Khan Academy API error''))"
proof (intro conjI impI)
  show "response_json out = None \<longleftrightarrow>
      out = TransportError \<or> (\<exists>status data. out = Response status data \<and> 400 \<le> status \<and> status < 600)"
    by (rule response_json_None)
qed (simp_all add: search_content_failed get_content_details_failed get_video_content_failed
       get_exercises_failed search_books_failed get_book_details_failed get_space_weather_failed
       get_apod_failed
       get_word_definition_failed search_videos_failed get_cached_videos_def)

theorem fetch_failure_is_logged_and_empty_witness:
  "response_json (Response 404 JNull) = None
   \<and> search_content (empty_world 0 (always TransportError)) id ''fractions'' None None 20
     = (Inr (JArr []),
        logger_error ((empty_world 0 (always TransportError))
          \<lparr>requests := [search_content_request ''fractions'' None None 20]\<rparr>) ''CK-12 search error'')
   \<and> fst (get_content_details (empty_world 0 (always TransportError)) ''c1'') = Inr JNull
   \<and> fst (get_video_content (empty_world 0 (always TransportError)) ''v1'') = Inr JNull
   \<and> fst (get_exercises (empty_world 0 (always TransportError)) ''math'' None) = Inr (JArr [])
   \<and> fst (search_books (empty_world 0 (always TransportError)) id ''fractions'' 20 None) = Inr (JArr [])
   \<and> fst (get_book_details (empty_world 0 (always TransportError)) ''b1'') = Inr JNull
   \<and> fst (get_apod (empty_world 0 (always TransportError)) None None) = Inr JNull
   \<and> fst (get_space_weather (empty_world 0 (always TransportError)) None) = Inr JNull
   \<and> fst (get_word_definition (empty_world 0 (always TransportError)) (Some ''key'') ''happy'')
     = Inr (get_basic_definition ''happy'')
   \<and> fst (search_videos (empty_world 0 (always TransportError)) id ''fractions'' None 20) = Inr (JArr [])
   \<and> logged (snd (search_videos (empty_world 0 (always TransportError)) id ''fractions'' None 20))
     = [''Khan Academy API error'']"
proof -
  let ?E = "empty_world 0 (always TransportError)"
  have f: "\<And>name days. fresh ?E name days = None" "\<And>name. files ?E name = None"
    by (simp_all add: fresh_def empty_world_def)
  have n: "\<And>r. response_json (net ?E r) = None"
    by (simp add: empty_world_def always_def)
  have r: "requests ?E = []" "logged ?E = []"
    by (simp_all add: empty_world_def)
  show ?thesis
    using fetch_failure_is_logged_and_empty
      [where out = "Response 404 JNull" and w = ?E and md5_hexdigest = id
         and query = "''fractions''" and subject = None and grade_level = None and limit = 20
         and content_id = "''c1''" and video_id = "''v1''" and subject' = "''math''"
         and book_id = "''b1''" and nasa_key = None and date = None and word = "''happy''"
         and api_key = "Some ''key''" and topic = "''fractions''"]
      f n r
    by (simp add: logger_error_def)
qed

text \<open>
  Claim C3 as stated fails twice. Once \<^verbatim>\<open>get_space_weather\<close> has cached an answer, the
  next call raises \<^verbatim>\<open>AttributeError\<close> at \<^verbatim>\<open>cache_age.hours\<close>. And \<^verbatim>\<open>search_videos\<close>, on a
  transport failure, returns the cached videos, not an empty result.
\<close>

theorem space_weather_raises_and_khan_returns_cache:
  "fst (get_space_weather (empty_world 0 (always (Response 200 (JObj [])))) None) = Inr (JObj [])
   \<and> get_space_weather
        (snd (get_space_weather (empty_world 0 (always (Response 200 (JObj [])))) None)) None
     = (Inl AttributeError,
        snd (get_space_weather (empty_world 0 (always (Response 200 (JObj [])))) None))
   \<and> fst (search_videos (khan_world (Doc sample_videos) 0 3600 (always TransportError))
            id ''fractions'' (Some 3) 10) = Inr sample_videos"
  by (simp add: get_space_weather_def search_videos_def session_get_def get_cached_videos_def
        json_load_def json_dump_def logger_error_def write_defs world_defs file_names)

section \<open>Expired entries\<close>

text \<open>
  Claim C4, as it holds of the code. A cache entry is read exactly while
  \<open>now - mtime < TTL\<close>: the test \<^verbatim>\<open>cache_age.days < N\<close> is the same as an age below \<open>N\<close>
  days. For \<^verbatim>\<open>get_content_details\<close>, \<^verbatim>\<open>get_video_content\<close>, \<^verbatim>\<open>search_content\<close>,
  \<^verbatim>\<open>search_books\<close>, \<^verbatim>\<open>get_book_details\<close>, \<^verbatim>\<open>get_apod\<close>, and \<^verbatim>\<open>get_word_definition\<close> of a
  client with an API key: when the entry's age is the time-to-live or more, the call returns what it
  would return were the file not there, and sends exactly one request.
  \<^verbatim>\<open>get_word_definition\<close> of a client without API key sends no request then, and returns
  the built-in definition.
\<close>

theorem expired_entry_is_absent:
  "fresh w name days =
     (case files w name of
        None \<Rightarrow> None
      | Some f \<Rightarrow> if now w - mtime f < days * 86400 then Some f else None)
   \<and> (\<forall>f. files w (content_cache_file content_id) = Some f \<and> 30 * 86400 \<le> now w - mtime f \<longrightarrow>
        fst (get_content_details w content_id)
          = fst (get_content_details (remove_file w (content_cache_file content_id)) content_id)
        \<and> requests (snd (get_content_details w content_id))
          = requests w @ [content_details_request content_id])
   \<and> (\<forall>f. files w (video_cache_file video_id) = Some f \<and> 7 * 86400 \<le> now w - mtime f \<longrightarrow>
        fst (get_video_content w video_id)
          = fst (get_video_content (remove_file w (video_cache_file video_id)) video_id)
        \<and> requests (snd (get_video_content w video_id))
          = requests w @ [video_content_request video_id])
   \<and> (\<forall>f. files w (search_cache_file md5_hexdigest query subject grade_level) = Some f
           \<and> 7 * 86400 \<le> now w - mtime f \<longrightarrow>
        fst (search_content w md5_hexdigest query subject grade_level limit)
          = fst (search_content
                   (remove_file w (search_cache_file md5_hexdigest query subject grade_level))
                   md5_hexdigest query subject grade_level limit)
        \<and> requests (snd (search_content w md5_hexdigest query subject grade_level limit))
          = requests w @ [search_content_request query subject grade_level limit])
   \<and> (\<forall>f. files w (books_cache_file md5_hexdigest query) = Some f
           \<and> 7 * 86400 \<le> now w - mtime f \<longrightarrow>
        fst (search_books w md5_hexdigest query limit grade_level)
          = fst (search_books (remove_file w (books_cache_file md5_hexdigest query))
                   md5_hexdigest query limit grade_level)
        \<and> requests (snd (search_books w md5_hexdigest query limit grade_level))
          = requests w @ [search_books_request query limit])
   \<and> (\<forall>f. files w (book_cache_file book_id) = Some f \<and> 30 * 86400 \<le> now w - mtime f \<longrightarrow>
        fst (get_book_details w book_id)
          = fst (get_book_details (remove_file w (book_cache_file book_id)) book_id)
        \<and> requests (snd (get_book_details w book_id))
          = requests w @ [book_details_request book_id])
   \<and> (\<forall>f. files w (apod_cache_file date) = Some f \<and> 1 * 86400 \<le> now w - mtime f \<longrightarrow>
        fst (get_apod w nasa_key date)
          = fst (get_apod (remove_file w (apod_cache_file date)) nasa_key date)
        \<and> requests (snd (get_apod w nasa_key date))
          = requests w @ [apod_request nasa_key date])
   \<and> (\<forall>f. files w (word_cache_file word) = Some f \<and> 30 * 86400 \<le> now w - mtime f \<longrightarrow>
        (has_api_key api_key \<longrightarrow>
           fst (get_word_definition w api_key word)
             = fst (get_word_definition (remove_file w (word_cache_file word)) api_key word)
           \<and> requests (snd (get_word_definition w api_key word))
             = requests w @ [word_request word])
        \<and> (\<not> has_api_key api_key \<longrightarrow>
           get_word_definition w api_key word = (Inr (get_basic_definition word), w)))"
proof (intro conjI allI impI)
  show "fresh w name days =
     (case files w name of
        None \<Rightarrow> None
      | Some f \<Rightarrow> if now w - mtime f < days * 86400 then Some f else None)"
    by (rule fresh_seconds)
next
  fix f assume "files w (content_cache_file content_id) = Some f \<and> 30 * 86400 \<le> now w - mtime f"
  then have "fresh w (content_cache_file content_id) 30 = None"
    by (simp add: fresh_expired)
  from get_content_details_miss [OF this]
  show "fst (get_content_details w content_id)
          = fst (get_content_details (remove_file w (content_cache_file content_id)) content_id)"
    and "requests (snd (get_content_details w content_id))
          = requests w @ [content_details_request content_id]"
    by simp_all
next
  fix f assume "files w (video_cache_file video_id) = Some f \<and> 7 * 86400 \<le> now w - mtime f"
  then have "fresh w (video_cache_file video_id) 7 = None"
    by (simp add: fresh_expired)
  from get_video_content_miss [OF this]
  show "fst (get_video_content w video_id)
          = fst (get_video_content (remove_file w (video_cache_file video_id)) video_id)"
    and "requests (snd (get_video_content w video_id))
          = requests w @ [video_content_request video_id]"
    by simp_all
next
  fix f assume "files w (search_cache_file md5_hexdigest query subject grade_level) = Some f
           \<and> 7 * 86400 \<le> now w - mtime f"
  then have "fresh w (search_cache_file md5_hexdigest query subject grade_level) 7 = None"
    by (simp add: fresh_expired)
  from search_content_miss [OF this]
  show "fst (search_content w md5_hexdigest query subject grade_level limit)
          = fst (search_content
                   (remove_file w (search_cache_file md5_hexdigest query subject grade_level))
                   md5_hexdigest query subject grade_level limit)"
    and "requests (snd (search_content w md5_hexdigest query subject grade_level limit))
          = requests w @ [search_content_request query subject grade_level limit]"
    by simp_all
next
  fix f assume "files w (books_cache_file md5_hexdigest query) = Some f
           \<and> 7 * 86400 \<le> now w - mtime f"
  then have "fresh w (books_cache_file md5_hexdigest query) 7 = None"
    by (simp add: fresh_expired)
  from search_books_miss [OF this]
  show "fst (search_books w md5_hexdigest query limit grade_level)
          = fst (search_books (remove_file w (books_cache_file md5_hexdigest query))
                   md5_hexdigest query limit grade_level)"
    and "requests (snd (search_books w md5_hexdigest query limit grade_level))
          = requests w @ [search_books_request query limit]"
    by simp_all
next
  fix f assume "files w (book_cache_file book_id) = Some f \<and> 30 * 86400 \<le> now w - mtime f"
  then have "fresh w (book_cache_file book_id) 30 = None"
    by (simp add: fresh_expired)
  from get_book_details_miss [OF this]
  show "fst (get_book_details w book_id)
          = fst (get_book_details (remove_file w (book_cache_file book_id)) book_id)"
    and "requests (snd (get_book_details w book_id))
          = requests w @ [book_details_request book_id]"
    by simp_all
next
  fix f assume "files w (apod_cache_file date) = Some f \<and> 1 * 86400 \<le> now w - mtime f"
  then have "fresh w (apod_cache_file date) 1 = None"
    by (simp add: fresh_expired)
  from get_apod_miss [OF this]
  show "fst (get_apod w nasa_key date)
          = fst (get_apod (remove_file w (apod_cache_file date)) nasa_key date)"
    and "requests (snd (get_apod w nasa_key date))
          = requests w @ [apod_request nasa_key date]"
    by simp_all
next
  fix f assume h: "files w (word_cache_file word) = Some f \<and> 30 * 86400 \<le> now w - mtime f"
  then have miss: "fresh w (word_cache_file word) 30 = None"
    by (simp add: fresh_expired)
  {
    assume k: "has_api_key api_key"
    from get_word_definition_miss [OF miss k]
    show "fst (get_word_definition w api_key word)
             = fst (get_word_definition (remove_file w (word_cache_file word)) api_key word)"
      and "requests (snd (get_word_definition w api_key word))
             = requests w @ [word_request word]"
      by simp_all
  next
    assume "\<not> has_api_key api_key"
    with miss show "get_word_definition w api_key word = (Inr (get_basic_definition word), w)"
      by (simp add: get_word_definition_no_key)
  }
qed

theorem expired_entry_is_absent_witness:
  "fresh (cached_world (Doc sample_doc) 0 604800 (always (Response 200 (JObj []))))
      (video_cache_file ''v1'') 7 = None
   \<and> fst (get_content_details (cached_world (Doc sample_doc) 0 2592000 (always (Response 200 (JObj [])))) ''c1'')
     = fst (get_content_details
         (remove_file (cached_world (Doc sample_doc) 0 2592000 (always (Response 200 (JObj []))))
            (content_cache_file ''c1'')) ''c1'')
   \<and> requests (snd (get_content_details
         (cached_world (Doc sample_doc) 0 2592000 (always (Response 200 (JObj [])))) ''c1''))
     = [content_details_request ''c1'']
   \<and> requests (snd (get_video_content
         (cached_world (Doc sample_doc) 0 2592000 (always (Response 200 (JObj [])))) ''v1''))
     = [video_content_request ''v1'']
   \<and> requests (snd (search_content
         (cached_world (Doc sample_doc) 0 2592000 (always (Response 200 (JObj []))))
         id ''fractions'' None None 20))
     = [search_content_request ''fractions'' None None 20]
   \<and> requests (snd (search_books
         (cached_world (Doc sample_doc) 0 2592000 (always (Response 200 (JObj []))))
         id ''fractions'' 20 None))
     = [search_books_request ''fractions'' 20]
   \<and> requests (snd (get_book_details
         (cached_world (Doc sample_doc) 0 2592000 (always (Response 200 (JObj [])))) ''b1''))
     = [book_details_request ''b1'']
   \<and> requests (snd (get_apod
         (cached_world (Doc sample_doc) 0 2592000 (always (Response 200 (JObj [])))) None None))
     = [apod_request None None]
   \<and> requests (snd (get_word_definition
         (cached_world (Doc sample_doc) 0 2592000 (always (Response 200 (JObj []))))
         (Some ''key'') ''happy''))
     = [word_request ''happy'']
   \<and> get_word_definition
         (cached_world (Doc sample_doc) 0 2592000 (always (Response 200 (JObj [])))) None ''happy''
     = (Inr (get_basic_definition ''happy''),
        cached_world (Doc sample_doc) 0 2592000 (always (Response 200 (JObj []))))"
proof -
  let ?W = "cached_world (Doc sample_doc) 0 2592000 (always (Response 200 (JObj [])))"
  let ?V = "cached_world (Doc sample_doc) 0 604800 (always (Response 200 (JObj [])))"
  let ?f = "\<lparr>stored = Doc sample_doc, mtime = 0\<rparr>"
  have f: "files ?W (video_cache_file ''v1'') = Some ?f"
    "files ?W (content_cache_file ''c1'') = Some ?f"
    "files ?W (search_cache_file id ''fractions'' None None) = Some ?f"
    "files ?W (books_cache_file id ''fractions'') = Some ?f"
    "files ?W (book_cache_file ''b1'') = Some ?f"
    "files ?W (word_cache_file ''happy'') = Some ?f"
    "files ?W (apod_cache_file None) = Some ?f"
    "files ?V (video_cache_file ''v1'') = Some ?f"
    by (simp_all add: world_defs file_names)
  have t: "now ?W = 2592000" "now ?V = 604800" "requests ?W = []"
    by (simp_all add: world_defs)
  show ?thesis
    using expired_entry_is_absent
      [where w = ?W and content_id = "''c1''" and video_id = "''v1''" and md5_hexdigest = id
         and query = "''fractions''" and subject = None and grade_level = None and limit = 20
         and book_id = "''b1''" and word = "''happy''" and api_key = "Some ''key''"
         and date = None and nasa_key = None]
      expired_entry_is_absent
      [where w = ?W and word = "''happy''" and api_key = None]
      expired_entry_is_absent
      [where w = ?V and name = "video_cache_file ''v1''" and days = 7]
      f t
    by simp
qed

text \<open>
  Claim C4 as stated fails for a WordsAPI client without API key: an entry aged exactly
  30 days is treated as absent, but no request follows.
\<close>

theorem expired_word_without_key_is_not_refetched:
  "get_word_definition (cached_world (Doc sample_doc) 0 2592000 (always (Response 200 (JObj []))))
       None ''happy''
     = (Inr (definition_of ''happy'' ''feeling or showing pleasure or contentment''),
        cached_world (Doc sample_doc) 0 2592000 (always (Response 200 (JObj []))))
   \<and> requests (snd (get_word_definition
        (cached_world (Doc sample_doc) 0 2592000 (always (Response 200 (JObj [])))) None ''happy''))
     = []"
  by (simp add: get_word_definition_def get_basic_definition_def basic_definitions_def dict_get_def
        fresh_def cache_age_days_def world_defs file_names)

section \<open>Write, then read\<close>

text \<open>
  Claim C5. For any cache file name and any JSON payload, reading the file
  (\<^verbatim>\<open>json.load\<close>) after writing the payload to it (\<^verbatim>\<open>json.dump\<close>) gives the payload back, at
  every later time at which the entry's whole days of age are below the time-to-live.
  For \<^verbatim>\<open>get_video_content\<close> (7 days) and \<^verbatim>\<open>get_word_definition\<close> (30 days): after a
  call that missed the cache, fetched the payload \<open>v\<close> and wrote it (the cache file could
  be opened), a call for the same key within the time-to-live returns \<open>v\<close>, whatever the
  network would answer, and changes nothing.
\<close>

theorem cache_write_then_read:
  "((t - now w) div 86400 < days \<longrightarrow>
      map_option json_load (fresh (later (json_dump w name v) t n) name days) = Some (Inr v))
   \<and> ((t - now w) div 86400 < 7 \<and> fresh w (video_cache_file video_id) 7 = None
        \<and> response_json (net w (video_content_request video_id)) = Some v
        \<and> open_error w (video_cache_file video_id) = None \<longrightarrow>
      fst (get_video_content w video_id) = Inr v
      \<and> get_video_content (later (snd (get_video_content w video_id)) t n) video_id
          = (Inr v, later (snd (get_video_content w video_id)) t n))
   \<and> ((t - now w) div 86400 < 30 \<and> fresh w (word_cache_file word) 30 = None
        \<and> has_api_key api_key \<and> response_json (net w (word_request word)) = Some v
        \<and> open_error w (word_cache_file word) = None \<longrightarrow>
      fst (get_word_definition w api_key word) = Inr v
      \<and> get_word_definition (later (snd (get_word_definition w api_key word)) t n) api_key' word
          = (Inr v, later (snd (get_word_definition w api_key word)) t n))"
proof (intro conjI impI)
  assume "(t - now w) div 86400 < days"
  then show "map_option json_load (fresh (later (json_dump w name v) t n) name days) = Some (Inr v)"
    by (simp add: fresh_after_dump json_load_def)
next
  assume h: "(t - now w) div 86400 < 7 \<and> fresh w (video_cache_file video_id) 7 = None
    \<and> response_json (net w (video_content_request video_id)) = Some v
    \<and> open_error w (video_cache_file video_id) = None"
  then show "fst (get_video_content w video_id) = Inr v"
    by (simp add: get_video_content_fetched)
  from h show "get_video_content (later (snd (get_video_content w video_id)) t n) video_id
      = (Inr v, later (snd (get_video_content w video_id)) t n)"
    by (simp add: get_video_content_fetched get_video_content_hit [OF fresh_after_dump]
          json_load_def)
next
  assume h: "(t - now w) div 86400 < 30 \<and> fresh w (word_cache_file word) 30 = None
    \<and> has_api_key api_key \<and> response_json (net w (word_request word)) = Some v
    \<and> open_error w (word_cache_file word) = None"
  then show "fst (get_word_definition w api_key word) = Inr v"
    by (simp add: get_word_definition_fetched)
  from h show
    "get_word_definition (later (snd (get_word_definition w api_key word)) t n) api_key' word
      = (Inr v, later (snd (get_word_definition w api_key word)) t n)"
    by (simp add: get_word_definition_fetched get_word_definition_hit [OF fresh_after_dump]
          json_load_def)
qed

theorem cache_write_then_read_witness:
  "map_option json_load
     (fresh (later (json_dump (empty_world 0 (always TransportError)) ''video_v1.json'' (JStr ''x''))
               3600 (always TransportError)) ''video_v1.json'' 7) = Some (Inr (JStr ''x''))
   \<and> fst (get_video_content (empty_world 0 (always (Response 200 (JStr ''x'')))) ''v1'')
       = Inr (JStr ''x'')
   \<and> fst (get_video_content
        (later (snd (get_video_content (empty_world 0 (always (Response 200 (JStr ''x'')))) ''v1''))
           3600 (always TransportError)) ''v1'') = Inr (JStr ''x'')
   \<and> fst (get_word_definition
        (later (snd (get_word_definition (empty_world 0 (always (Response 200 (JStr ''x''))))
                      (Some ''key'') ''Happy''))
           3600 (always TransportError)) None ''Happy'') = Inr (JStr ''x'')"
proof -
  let ?E = "empty_world 0 (always TransportError)"
  let ?A = "empty_world 0 (always (Response 200 (JStr ''x'')))"
  have a: "(3600 - now ?E) div 86400 < 7" "(3600 - now ?A) div 86400 < 7"
    "(3600 - now ?A) div 86400 < 30"
    by (simp_all add: world_defs)
  have v: "fresh ?A (video_cache_file ''v1'') 7 = None"
    "response_json (net ?A (video_content_request ''v1'')) = Some (JStr ''x'')"
    "open_error ?A (video_cache_file ''v1'') = None"
    by (simp_all add: world_defs fresh_def write_defs file_names)
  have d: "fresh ?A (word_cache_file ''Happy'') 30 = None" "has_api_key (Some ''key'')"
    "response_json (net ?A (word_request ''Happy'')) = Some (JStr ''x'')"
    "open_error ?A (word_cache_file ''Happy'') = None"
    by (simp_all add: world_defs fresh_def write_defs file_names)
  note T = cache_write_then_read [where t = 3600 and w = ?E and days = 7
      and name = "''video_v1.json''" and v = "JStr ''x''" and n = "always TransportError"]
  note U = cache_write_then_read [where t = 3600 and w = ?A and v = "JStr ''x''"
      and n = "always TransportError" and video_id = "''v1''" and word = "''Happy''"
      and api_key = "Some ''key''" and api_key' = None]
  show ?thesis
    using T [THEN conjunct1, rule_format, OF a(1)]
      U [THEN conjunct2, THEN conjunct1, rule_format, OF conjI [OF a(2) conjI [OF v(1) conjI [OF v(2) v(3)]]]]
      U [THEN conjunct2, THEN conjunct2, rule_format,
         OF conjI [OF a(3) conjI [OF d(1) conjI [OF d(2) conjI [OF d(3) d(4)]]]]]
    by simp
qed

section \<open>A cache file that does not parse\<close>

text \<open>
  Claim C6, as it holds of the code. A cache file that is younger than the time-to-live
  and does not parse makes the call raise \<^verbatim>\<open>JSONDecodeError\<close>: nothing is fetched and
  nothing changes. This holds for the seven operations that test the file's age;
  \<^verbatim>\<open>search_videos\<close> raises alike when its request has failed and its cache file does not
  parse. Only an expired file is not read: \<^verbatim>\<open>get_video_content\<close> then fetches, and
  overwrites the file when the fetch succeeds and the file can be opened.
\<close>

theorem malformed_cache_file_raises:
  "(\<forall>f. fresh w (video_cache_file video_id) 7 = Some f \<and> stored f = Malformed \<longrightarrow>
       get_video_content w video_id = (Inl JSONDecodeError, w))
   \<and> (\<forall>f. fresh w (search_cache_file md5_hexdigest query subject grade_level) 7 = Some f
           \<and> stored f = Malformed \<longrightarrow>
       search_content w md5_hexdigest query subject grade_level limit = (Inl JSONDecodeError, w))
   \<and> (\<forall>f. fresh w (content_cache_file content_id) 30 = Some f \<and> stored f = Malformed \<longrightarrow>
       get_content_details w content_id = (Inl JSONDecodeError, w))
   \<and> (\<forall>f. fresh w (books_cache_file md5_hexdigest query) 7 = Some f \<and> stored f = Malformed \<longrightarrow>
       search_books w md5_hexdigest query limit grade_level = (Inl JSONDecodeError, w))
   \<and> (\<forall>f. fresh w (book_cache_file book_id) 30 = Some f \<and> stored f = Malformed \<longrightarrow>
       get_book_details w book_id = (Inl JSONDecodeError, w))
   \<and> (\<forall>f. fresh w (word_cache_file word) 30 = Some f \<and> stored f = Malformed \<longrightarrow>
       get_word_definition w api_key word = (Inl JSONDecodeError, w))
   \<and> (\<forall>f. fresh w (apod_cache_file date) 1 = Some f \<and> stored f = Malformed \<longrightarrow>
       get_apod w nasa_key date = (Inl JSONDecodeError, w))
   \<and> (\<forall>f. files w (khan_search_cache_file md5_hexdigest topic grade_level) = Some f
           \<and> stored f = Malformed
           \<and> response_json (net w (search_videos_request topic grade_level limit)) = None \<longrightarrow>
       fst (search_videos w md5_hexdigest topic grade_level limit) = Inl JSONDecodeError)
   \<and> (\<forall>f v. files w (video_cache_file video_id) = Some f \<and> stored f = Malformed
           \<and> 7 * 86400 \<le> now w - mtime f
           \<and> response_json (net w (video_content_request video_id)) = Some v
           \<and> open_error w (video_cache_file video_id) = None \<longrightarrow>
       get_video_content w video_id =
         (Inr v, json_dump (w\<lparr>requests := requests w @ [video_content_request video_id]\<rparr>)
                   (video_cache_file video_id) v))"
  by (intro conjI allI impI)
     (simp_all add: get_video_content_hit search_content_hit get_content_details_hit
        search_books_hit get_book_details_hit get_word_definition_hit get_apod_hit
        json_load_malformed
        search_videos_failed get_cached_videos_def get_video_content_fetched fresh_expired)

theorem malformed_cache_file_raises_witness:
  "get_video_content (cached_world Malformed 0 3600 (always TransportError)) ''v1''
     = (Inl JSONDecodeError, cached_world Malformed 0 3600 (always TransportError))
   \<and> search_content (cached_world Malformed 0 3600 (always TransportError)) id ''fractions'' None None 20
     = (Inl JSONDecodeError, cached_world Malformed 0 3600 (always TransportError))
   \<and> get_content_details (cached_world Malformed 0 3600 (always TransportError)) ''c1''
     = (Inl JSONDecodeError, cached_world Malformed 0 3600 (always TransportError))
   \<and> search_books (cached_world Malformed 0 3600 (always TransportError)) id ''fractions'' 20 None
     = (Inl JSONDecodeError, cached_world Malformed 0 3600 (always TransportError))
   \<and> get_book_details (cached_world Malformed 0 3600 (always TransportError)) ''b1''
     = (Inl JSONDecodeError, cached_world Malformed 0 3600 (always TransportError))
   \<and> get_word_definition (cached_world Malformed 0 3600 (always TransportError)) None ''happy''
     = (Inl JSONDecodeError, cached_world Malformed 0 3600 (always TransportError))
   \<and> get_apod (cached_world Malformed 0 3600 (always TransportError)) None None
     = (Inl JSONDecodeError, cached_world Malformed 0 3600 (always TransportError))
   \<and> fst (search_videos (khan_world Malformed 0 3600 (always TransportError)) id ''fractions'' (Some 3) 20)
     = Inl JSONDecodeError
   \<and> fst (get_video_content (cached_world Malformed 0 604800 (always (Response 200 (JObj [])))) ''v1'')
     = Inr (JObj [])"
proof -
  let ?W = "cached_world Malformed 0 3600 (always TransportError)"
  let ?K = "khan_world Malformed 0 3600 (always TransportError)"
  let ?V = "cached_world Malformed 0 604800 (always (Response 200 (JObj [])))"
  let ?f = "\<lparr>stored = Malformed, mtime = 0\<rparr>"
  have f: "fresh ?W (video_cache_file ''v1'') 7 = Some ?f"
    "fresh ?W (content_cache_file ''c1'') 30 = Some ?f"
    "fresh ?W (search_cache_file id ''fractions'' None None) 7 = Some ?f"
    "fresh ?W (books_cache_file id ''fractions'') 7 = Some ?f"
    "fresh ?W (book_cache_file ''b1'') 30 = Some ?f"
    "fresh ?W (word_cache_file ''happy'') 30 = Some ?f"
    "fresh ?W (apod_cache_file None) 1 = Some ?f"
    "files ?K (khan_search_cache_file id ''fractions'' (Some 3)) = Some ?f"
    "files ?V (video_cache_file ''v1'') = Some ?f"
    by (simp_all add: world_defs fresh_def cache_age_days_def file_names)
  have n: "response_json (net ?K (search_videos_request ''fractions'' (Some 3) 20)) = None"
    "response_json (net ?V (video_content_request ''v1'')) = Some (JObj [])"
    "now ?V = 604800"
    "open_error ?V (video_cache_file ''v1'') = None"
    by (simp_all add: world_defs open_error_def file_names)
  show ?thesis
    using malformed_cache_file_raises
      [where w = ?W and content_id = "''c1''" and video_id = "''v1''" and md5_hexdigest = id
         and query = "''fractions''" and subject = None and grade_level = None and limit = 20
         and book_id = "''b1''" and word = "''happy''" and api_key = None
         and date = None and nasa_key = None]
      malformed_cache_file_raises
      [where w = ?K and md5_hexdigest = id and topic = "''fractions''" and grade_level = "Some 3"
         and limit = 20]
      malformed_cache_file_raises
      [where w = ?V and video_id = "''v1''"]
      f n
    by simp
qed

text \<open>
  Claim C6 as stated fails: with a young cache file that does not parse and a network
  that would answer, \<^verbatim>\<open>get_video_content\<close> and \<^verbatim>\<open>search_content\<close> raise and send nothing.
\<close>

theorem malformed_fresh_cache_file_is_fatal:
  "get_video_content (cached_world Malformed 0 3600 (always (Response 200 (JObj [])))) ''v1''
     = (Inl JSONDecodeError, cached_world Malformed 0 3600 (always (Response 200 (JObj []))))
   \<and> search_content (cached_world Malformed 0 3600 (always (Response 200 (JObj []))))
        id ''fractions'' None None 20
     = (Inl JSONDecodeError, cached_world Malformed 0 3600 (always (Response 200 (JObj []))))"
  by (simp add: get_video_content_def search_content_def json_load_def
        fresh_def cache_age_days_def world_defs file_names)

section \<open>Word lookup without an API key\<close>

text \<open>
  Claim C7, as it holds of the code. A WordsAPI client without API key (\<^verbatim>\<open>None\<close> or the
  empty string) never sends a request in \<^verbatim>\<open>get_word_definition\<close>, for any word and any
  cache, and changes nothing. When the word has no young cache entry the result is the
  built-in definition (the entry of the static dictionary, or the fabricated record);
  when it has one, the result is the cached payload.
\<close>

theorem no_api_key_no_request:
  "\<not> has_api_key api_key \<longrightarrow>
     snd (get_word_definition w api_key word) = w
     \<and> (fresh w (word_cache_file word) 30 = None \<longrightarrow>
          fst (get_word_definition w api_key word) = Inr (get_basic_definition word))
     \<and> (\<forall>f. fresh w (word_cache_file word) 30 = Some f \<longrightarrow>
          fst (get_word_definition w api_key word) = json_load f)"
  by (cases "fresh w (word_cache_file word) 30")
     (simp_all add: get_word_definition_hit get_word_definition_no_key)

theorem no_api_key_no_request_witness:
  "snd (get_word_definition (empty_world 0 (always (Response 200 (JObj [])))) None ''zebra'')
     = empty_world 0 (always (Response 200 (JObj [])))
   \<and> fst (get_word_definition (empty_world 0 (always (Response 200 (JObj [])))) None ''zebra'')
     = Inr (get_basic_definition ''zebra'')
   \<and> snd (get_word_definition (cached_world (Doc sample_doc) 0 3600 (always (Response 200 (JObj []))))
            (Some []) ''happy'')
     = cached_world (Doc sample_doc) 0 3600 (always (Response 200 (JObj [])))
   \<and> fst (get_word_definition (cached_world (Doc sample_doc) 0 3600 (always (Response 200 (JObj []))))
            (Some []) ''happy'')
     = Inr sample_doc"
proof -
  let ?E = "empty_world 0 (always (Response 200 (JObj [])))"
  let ?W = "cached_world (Doc sample_doc) 0 3600 (always (Response 200 (JObj [])))"
  have f: "fresh ?E (word_cache_file ''zebra'') 30 = None"
    "fresh ?W (word_cache_file ''happy'') 30 = Some \<lparr>stored = Doc sample_doc, mtime = 0\<rparr>"
    by (simp_all add: world_defs fresh_def cache_age_days_def file_names)
  show ?thesis
    using no_api_key_no_request [where w = ?E and api_key = None and word = "''zebra''"]
      no_api_key_no_request [where w = ?W and api_key = "Some []" and word = "''happy''"]
      f
    by (simp add: json_load_def)
qed

text \<open>
  Claim C7 as stated fails for a cached word: the lookup returns the cached payload, which
  is not the entry of the static dictionary.
\<close>

theorem cached_word_is_not_from_dictionary:
  "get_word_definition (cached_world (Doc sample_doc) 0 3600 (always TransportError)) None ''happy''
     = (Inr sample_doc, cached_world (Doc sample_doc) 0 3600 (always TransportError))
   \<and> get_basic_definition ''happy''
     = definition_of ''happy'' ''feeling or showing pleasure or contentment''
   \<and> sample_doc \<noteq> get_basic_definition ''happy''"
  by (simp add: get_word_definition_def get_basic_definition_def basic_definitions_def dict_get_def
        definition_of_def sample_doc_def json_load_def
        fresh_def cache_age_days_def world_defs file_names)

section \<open>Lesson drafts\<close>

text \<open>
  Claim C8, as it holds of the code. \<^verbatim>\<open>create_lesson_from_khan\<close>: when \<^verbatim>\<open>search_videos\<close> and
  \<^verbatim>\<open>get_exercises\<close> return lists, the draft holds the first 3 videos and the first 5
  exercises, estimated time 30 and XP value 15; when every request fails and no cached
  search exists, the draft is still returned, with both lists empty. Whenever the helper
  returns, it returns such a draft (never \<^verbatim>\<open>None\<close>): both provider calls have returned, the
  exercises are a list, and the two fields are the slices \<^verbatim>\<open>[:3]\<close> and \<^verbatim>\<open>[:5]\<close> of their
  results. It does not return when a provider call raises: the exception of
  \<^verbatim>\<open>search_videos\<close> or of \<^verbatim>\<open>get_exercises\<close> is the helper's.

  \<^verbatim>\<open>create_reading_lesson\<close> returns \<^verbatim>\<open>None\<close> when the book search gives nothing. When the
  search gives a list that starts with a book record, the details call returns and the
  author can be read, it returns a draft with that book, the details, estimated time 45
  and XP value 30; whenever it returns something other than \<^verbatim>\<open>None\<close>, this is the case.
  It raises what the search raises, what the details call raises (for a work key such
  as \<^verbatim>\<open>/works/OL45883W\<close> the cache file of the details cannot be opened), and what reading
  the author raises (an empty \<^verbatim>\<open>author_name\<close> list has no first element).
\<close>

theorem lesson_drafts:
  "(search_videos w md5_hexdigest subject grade_level 20 = (Inr (JArr videos), w1)
      \<and> get_exercises w1 subject grade_level = (Inr (JArr exercises), w2) \<longrightarrow>
     create_lesson_from_khan w md5_hexdigest subject grade_level topic =
       (Inr (JObj
          [(''title'', JStr (''Khan Academy - '' @ subject @ '' - '' @ topic)),
           (''subject'', JStr subject),
           (''grade_level'', opt_int grade_level),
           (''content_type'', JStr ''khan_academy''),
           (''videos'', JArr (take 3 videos)),
           (''exercises'', JArr (take 5 exercises)),
           (''estimated_time'', JInt 30),
           (''xp_value'', JInt 15)]),
        snd (get_subject_topics w2 subject)))
   \<and> ((\<forall>r. response_json (net w r) = None)
        \<and> files w (khan_search_cache_file md5_hexdigest subject grade_level) = None \<longrightarrow>
     fst (create_lesson_from_khan w md5_hexdigest subject grade_level topic) =
       Inr (JObj
          [(''title'', JStr (''Khan Academy - '' @ subject @ '' - '' @ topic)),
           (''subject'', JStr subject),
           (''grade_level'', opt_int grade_level),
           (''content_type'', JStr ''khan_academy''),
           (''videos'', JArr []),
           (''exercises'', JArr []),
           (''estimated_time'', JInt 30),
           (''xp_value'', JInt 15)]))
   \<and> (\<forall>d. fst (create_lesson_from_khan w md5_hexdigest subject grade_level topic) = Inr d \<longrightarrow>
     (\<exists>videos w1 exercises w2 videos3.
        search_videos w md5_hexdigest subject grade_level 20 = (Inr videos, w1)
        \<and> get_exercises w1 subject grade_level = (Inr (JArr exercises), w2)
        \<and> py_slice_to videos 3 = Inr videos3
        \<and> d = JObj
            [(''title'', JStr (''Khan Academy - '' @ subject @ '' - '' @ topic)),
             (''subject'', JStr subject),
             (''grade_level'', opt_int grade_level),
             (''content_type'', JStr ''khan_academy''),
             (''videos'', videos3),
             (''exercises'', JArr (take 5 exercises)),
             (''estimated_time'', JInt 30),
             (''xp_value'', JInt 15)]))
   \<and> (search_videos w md5_hexdigest subject grade_level 20 = (Inl e, w1) \<longrightarrow>
     create_lesson_from_khan w md5_hexdigest subject grade_level topic = (Inl e, w1))
   \<and> (search_videos w md5_hexdigest subject grade_level 20 = (Inr found, w1)
      \<and> get_exercises w1 subject grade_level = (Inl e, w2) \<longrightarrow>
     create_lesson_from_khan w md5_hexdigest subject grade_level topic = (Inl e, w2))
   \<and> (search_books w md5_hexdigest book_title 1 None = (Inr books, w1) \<and> \<not> truthy books \<longrightarrow>
     create_reading_lesson w md5_hexdigest book_title level = (Inr JNull, w1))
   \<and> (search_books w md5_hexdigest book_title 1 None = (Inr (JArr (JObj book # rest)), w1)
        \<and> get_book_details w1 (py_str (dict_get book ''key'' (JStr []))) = (Inr book_details, w2)
        \<and> author_of book = Inr author \<longrightarrow>
     create_reading_lesson w md5_hexdigest book_title level =
       (Inr (JObj
          [(''title'', JStr (''Reading: '' @ py_str (dict_get book ''title'' (JStr book_title)))),
           (''subject'', JStr ''reading''),
           (''grade_level'', JInt level),
           (''content_type'', JStr ''openlibrary''),
           (''book_data'', JObj book),
           (''book_details'', book_details),
           (''text_content'',
              JStr (''Read and discuss '' @ py_str (dict_get book ''title'' (JStr book_title))
                    @ '' by '' @ py_str author @ ''.'')),
           (''estimated_time'', JInt 45),
           (''xp_value'', JInt 30)]),
        w2))
   \<and> (\<forall>d. fst (create_reading_lesson w md5_hexdigest book_title level) = Inr d \<and> d \<noteq> JNull \<longrightarrow>
     (\<exists>book rest w1 book_details w2 author.
        search_books w md5_hexdigest book_title 1 None = (Inr (JArr (JObj book # rest)), w1)
        \<and> get_book_details w1 (py_str (dict_get book ''key'' (JStr []))) = (Inr book_details, w2)
        \<and> author_of book = Inr author
        \<and> d = JObj
            [(''title'', JStr (''Reading: '' @ py_str (dict_get book ''title'' (JStr book_title)))),
             (''subject'', JStr ''reading''),
             (''grade_level'', JInt level),
             (''content_type'', JStr ''openlibrary''),
             (''book_data'', JObj book),
             (''book_details'', book_details),
             (''text_content'',
                JStr (''Read and discuss '' @ py_str (dict_get book ''title'' (JStr book_title))
                      @ '' by '' @ py_str author @ ''.'')),
             (''estimated_time'', JInt 45),
             (''xp_value'', JInt 30)]))
   \<and> (search_books w md5_hexdigest book_title 1 None = (Inl e, w1) \<longrightarrow>
     create_reading_lesson w md5_hexdigest book_title level = (Inl e, w1))
   \<and> (search_books w md5_hexdigest book_title 1 None = (Inr (JArr (JObj book # rest)), w1)
        \<and> get_book_details w1 (py_str (dict_get book ''key'' (JStr []))) = (Inl e, w2) \<longrightarrow>
     create_reading_lesson w md5_hexdigest book_title level = (Inl e, w2))
   \<and> (search_books w md5_hexdigest book_title 1 None = (Inr (JArr (JObj book # rest)), w1)
        \<and> get_book_details w1 (py_str (dict_get book ''key'' (JStr []))) = (Inr book_details, w2)
        \<and> author_of book = Inl e \<longrightarrow>
     create_reading_lesson w md5_hexdigest book_title level = (Inl e, w2))"
proof (intro conjI impI allI)
  assume h: "search_videos w md5_hexdigest subject grade_level 20 = (Inr (JArr videos), w1)
      \<and> get_exercises w1 subject grade_level = (Inr (JArr exercises), w2)"
  obtain topics w3 where t: "get_subject_topics w2 subject = (Inr topics, w3)"
    using get_subject_topics_result by blast
  from h t have "get_subject_content w md5_hexdigest subject grade_level =
      (Inr (JObj [(''videos'', JArr videos), (''exercises'', JArr exercises), (''topics'', topics)]),
       w3)"
    by (simp add: get_subject_content_def)
  with t show "create_lesson_from_khan w md5_hexdigest subject grade_level topic =
       (Inr (JObj
          [(''title'', JStr (''Khan Academy - '' @ subject @ '' - '' @ topic)),
           (''subject'', JStr subject),
           (''grade_level'', opt_int grade_level),
           (''content_type'', JStr ''khan_academy''),
           (''videos'', JArr (take 3 videos)),
           (''exercises'', JArr (take 5 exercises)),
           (''estimated_time'', JInt 30),
           (''xp_value'', JInt 15)]),
        snd (get_subject_topics w2 subject))"
    by (simp add: create_lesson_from_khan_def)
next
  assume h: "(\<forall>r. response_json (net w r) = None)
        \<and> files w (khan_search_cache_file md5_hexdigest subject grade_level) = None"
  let ?w1 = "logger_error (w\<lparr>requests := requests w @ [search_videos_request subject grade_level 20]\<rparr>)
        ''Khan Academy API error''"
  let ?w2 = "logger_error (?w1\<lparr>requests := requests ?w1 @ [exercises_request subject grade_level]\<rparr>)
        ''Error fetching exercises''"
  from h have sv: "search_videos w md5_hexdigest subject grade_level 20 = (Inr (JArr []), ?w1)"
    by (simp add: search_videos_failed get_cached_videos_def)
  from h have "response_json (net ?w1 (exercises_request subject grade_level)) = None"
    by (simp add: logger_error_def)
  then have ge: "get_exercises ?w1 subject grade_level = (Inr (JArr []), ?w2)"
    by (rule get_exercises_failed)
  obtain topics w3 where t: "get_subject_topics ?w2 subject = (Inr topics, w3)"
    using get_subject_topics_result by blast
  have "get_subject_content w md5_hexdigest subject grade_level =
      (Inr (JObj [(''videos'', JArr []), (''exercises'', JArr []), (''topics'', topics)]),
       w3)"
    using sv ge t by (simp add: get_subject_content_def)
  then show "fst (create_lesson_from_khan w md5_hexdigest subject grade_level topic) =
       Inr (JObj
          [(''title'', JStr (''Khan Academy - '' @ subject @ '' - '' @ topic)),
           (''subject'', JStr subject),
           (''grade_level'', opt_int grade_level),
           (''content_type'', JStr ''khan_academy''),
           (''videos'', JArr []),
           (''exercises'', JArr []),
           (''estimated_time'', JInt 30),
           (''xp_value'', JInt 15)])"
    by (simp add: create_lesson_from_khan_def)
next
  fix d
  assume h: "fst (create_lesson_from_khan w md5_hexdigest subject grade_level topic) = Inr d"
  obtain r1 wa where sv: "search_videos w md5_hexdigest subject grade_level 20 = (r1, wa)"
    by (cases "search_videos w md5_hexdigest subject grade_level 20")
  obtain r2 wb where ge: "get_exercises wa subject grade_level = (r2, wb)"
    by (cases "get_exercises wa subject grade_level")
  obtain topics wc where t: "get_subject_topics wb subject = (Inr topics, wc)"
    using get_subject_topics_result by blast
  from h sv obtain vs where v: "r1 = Inr vs"
    by (cases r1) (simp_all add: create_lesson_from_khan_def get_subject_content_def)
  from h sv v ge obtain ex where x: "r2 = Inr ex"
    by (cases r2) (simp_all add: create_lesson_from_khan_def get_subject_content_def)
  from ge x obtain es where l: "ex = JArr es"
    using get_exercises_list [of wa subject grade_level ex] by auto
  from h sv v ge x l t obtain vs3 where s: "py_slice_to vs 3 = Inr vs3"
    by (cases "py_slice_to vs 3")
       (simp_all add: create_lesson_from_khan_def get_subject_content_def)
  from h sv v ge x l t s show "(\<exists>videos w1 exercises w2 videos3.
        search_videos w md5_hexdigest subject grade_level 20 = (Inr videos, w1)
        \<and> get_exercises w1 subject grade_level = (Inr (JArr exercises), w2)
        \<and> py_slice_to videos 3 = Inr videos3
        \<and> d = JObj
            [(''title'', JStr (''Khan Academy - '' @ subject @ '' - '' @ topic)),
             (''subject'', JStr subject),
             (''grade_level'', opt_int grade_level),
             (''content_type'', JStr ''khan_academy''),
             (''videos'', videos3),
             (''exercises'', JArr (take 5 exercises)),
             (''estimated_time'', JInt 30),
             (''xp_value'', JInt 15)])"
    by (simp add: create_lesson_from_khan_def get_subject_content_def)
next
  assume h: "search_videos w md5_hexdigest subject grade_level 20 = (Inl e, w1)"
  from h show "create_lesson_from_khan w md5_hexdigest subject grade_level topic = (Inl e, w1)"
    by (simp add: create_lesson_from_khan_def get_subject_content_def)
next
  assume h: "search_videos w md5_hexdigest subject grade_level 20 = (Inr found, w1)
      \<and> get_exercises w1 subject grade_level = (Inl e, w2)"
  from h show "create_lesson_from_khan w md5_hexdigest subject grade_level topic = (Inl e, w2)"
    by (simp add: create_lesson_from_khan_def get_subject_content_def)
next
  assume h: "search_books w md5_hexdigest book_title 1 None = (Inr books, w1) \<and> \<not> truthy books"
  from h show "create_reading_lesson w md5_hexdigest book_title level = (Inr JNull, w1)"
    by (simp add: create_reading_lesson_def)
next
  assume h: "search_books w md5_hexdigest book_title 1 None = (Inr (JArr (JObj book # rest)), w1)
        \<and> get_book_details w1 (py_str (dict_get book ''key'' (JStr []))) = (Inr book_details, w2)
        \<and> author_of book = Inr author"
  from h show "create_reading_lesson w md5_hexdigest book_title level =
       (Inr (JObj
          [(''title'', JStr (''Reading: '' @ py_str (dict_get book ''title'' (JStr book_title)))),
           (''subject'', JStr ''reading''),
           (''grade_level'', JInt level),
           (''content_type'', JStr ''openlibrary''),
           (''book_data'', JObj book),
           (''book_details'', book_details),
           (''text_content'',
              JStr (''Read and discuss '' @ py_str (dict_get book ''title'' (JStr book_title))
                    @ '' by '' @ py_str author @ ''.'')),
           (''estimated_time'', JInt 45),
           (''xp_value'', JInt 30)]),
        w2)"
    by (simp add: create_reading_lesson_def)
next
  fix d
  assume h: "fst (create_reading_lesson w md5_hexdigest book_title level) = Inr d \<and> d \<noteq> JNull"
  obtain r1 wa where sb: "search_books w md5_hexdigest book_title 1 None = (r1, wa)"
    by (cases "search_books w md5_hexdigest book_title 1 None")
  from h sb obtain bks where b: "r1 = Inr bks"
    by (cases r1) (simp_all add: create_reading_lesson_def)
  from h sb b have tr: "truthy bks"
    by (cases "truthy bks") (auto simp add: create_reading_lesson_def)
  from h sb b tr obtain bk where f: "py_first bks = Inr (JObj bk)"
    by (cases "py_first bks") (auto simp add: create_reading_lesson_def split: json.splits)
  then obtain rs where bs: "bks = JArr (JObj bk # rs)"
    by (cases bks rule: py_first.cases) simp_all
  obtain r2 wb where gb: "get_book_details wa (py_str (dict_get bk ''key'' (JStr []))) = (r2, wb)"
    by (cases "get_book_details wa (py_str (dict_get bk ''key'' (JStr [])))")
  from h sb b bs gb obtain details where bd: "r2 = Inr details"
    by (cases r2) (simp_all add: create_reading_lesson_def)
  from h sb b bs gb bd obtain au where a: "author_of bk = Inr au"
    by (cases "author_of bk") (simp_all add: create_reading_lesson_def)
  from h sb b bs gb bd a show "(\<exists>book rest w1 book_details w2 author.
        search_books w md5_hexdigest book_title 1 None = (Inr (JArr (JObj book # rest)), w1)
        \<and> get_book_details w1 (py_str (dict_get book ''key'' (JStr []))) = (Inr book_details, w2)
        \<and> author_of book = Inr author
        \<and> d = JObj
            [(''title'', JStr (''Reading: '' @ py_str (dict_get book ''title'' (JStr book_title)))),
             (''subject'', JStr ''reading''),
             (''grade_level'', JInt level),
             (''content_type'', JStr ''openlibrary''),
             (''book_data'', JObj book),
             (''book_details'', book_details),
             (''text_content'',
                JStr (''Read and discuss '' @ py_str (dict_get book ''title'' (JStr book_title))
                      @ '' by '' @ py_str author @ ''.'')),
             (''estimated_time'', JInt 45),
             (''xp_value'', JInt 30)])"
    by (simp add: create_reading_lesson_def)
next
  assume h: "search_books w md5_hexdigest book_title 1 None = (Inl e, w1)"
  from h show "create_reading_lesson w md5_hexdigest book_title level = (Inl e, w1)"
    by (simp add: create_reading_lesson_def)
next
  assume h: "search_books w md5_hexdigest book_title 1 None = (Inr (JArr (JObj book # rest)), w1)
        \<and> get_book_details w1 (py_str (dict_get book ''key'' (JStr []))) = (Inl e, w2)"
  from h show "create_reading_lesson w md5_hexdigest book_title level = (Inl e, w2)"
    by (simp add: create_reading_lesson_def)
next
  assume h: "search_books w md5_hexdigest book_title 1 None = (Inr (JArr (JObj book # rest)), w1)
        \<and> get_book_details w1 (py_str (dict_get book ''key'' (JStr []))) = (Inr book_details, w2)
        \<and> author_of book = Inl e"
  from h show "create_reading_lesson w md5_hexdigest book_title level = (Inl e, w2)"
    by (simp add: create_reading_lesson_def)
qed

theorem lesson_drafts_witness:
  "fst (create_lesson_from_khan
          (empty_world 0 (always (Response 200 (JArr [JObj [], JObj [], JObj [], JObj []]))))
          id ''math'' (Some 3) ''fractions'')
     = Inr (JObj
          [(''title'', JStr ''Khan Academy - math - fractions''),
           (''subject'', JStr ''math''),
           (''grade_level'', JInt 3),
           (''content_type'', JStr ''khan_academy''),
           (''videos'', JArr (replicate 3 (JObj
              [(''id'', JNull), (''title'', JNull), (''description'', JNull), (''duration'', JNull),
               (''thumbnail'', JNull), (''url'', JNull), (''subject'', JNull),
               (''grade_level'', JNull)]))),
           (''exercises'', JArr (replicate 4 (JObj
              [(''id'', JNull), (''title'', JNull), (''description'', JNull), (''type'', JNull),
               (''difficulty'', JNull), (''subject'', JNull)]))),
           (''estimated_time'', JInt 30),
           (''xp_value'', JInt 15)])
   \<and> fst (create_lesson_from_khan (empty_world 0 (always TransportError))
          id ''math'' (Some 3) ''fractions'')
     = Inr (JObj
          [(''title'', JStr ''Khan Academy - math - fractions''),
           (''subject'', JStr ''math''),
           (''grade_level'', JInt 3),
           (''content_type'', JStr ''khan_academy''),
           (''videos'', JArr []),
           (''exercises'', JArr []),
           (''estimated_time'', JInt 30),
           (''xp_value'', JInt 15)])
   \<and> (\<exists>videos w1 exercises w2.
        search_videos (empty_world 0 (always TransportError)) id ''math'' (Some 3) 20
          = (Inr videos, w1)
        \<and> get_exercises w1 ''math'' (Some 3) = (Inr (JArr exercises), w2)
        \<and> py_slice_to videos 3 = Inr (JArr []) \<and> take 5 exercises = [])
   \<and> fst (create_lesson_from_khan (empty_world 0 (always (Response 200 (JArr [JInt 1]))))
          id ''math'' (Some 3) ''fractions'') = Inl AttributeError
   \<and> fst (create_lesson_from_khan
          (empty_world 0 (\<lambda>r. if url r = khan_base_url @ ''/exercises''
                                then Response 200 (JArr [JInt 1]) else TransportError))
          id ''math'' (Some 3) ''fractions'') = Inl AttributeError
   \<and> fst (create_reading_lesson (empty_world 0 (always (Response 200 (JObj [(''docs'', JArr [])]))))
          id ''The Hobbit'' 6) = Inr JNull
   \<and> fst (create_reading_lesson
          (empty_world 0 (always (Response 200 (JObj
             [(''docs'', JArr [JObj [(''key'', JStr ''OL1W''), (''title'', JStr ''The Hobbit'')]])]))))
          id ''hobbit'' 6)
     = Inr (JObj
          [(''title'', JStr ''Reading: The Hobbit''),
           (''subject'', JStr ''reading''),
           (''grade_level'', JInt 6),
           (''content_type'', JStr ''openlibrary''),
           (''book_data'', JObj [(''key'', JStr ''OL1W''), (''title'', JStr ''The Hobbit'')]),
           (''book_details'', JObj
             [(''docs'', JArr [JObj [(''key'', JStr ''OL1W''), (''title'', JStr ''The Hobbit'')]])]),
           (''text_content'', JStr ''Read and discuss The Hobbit by Unknown Author.''),
           (''estimated_time'', JInt 45),
           (''xp_value'', JInt 30)])
   \<and> (\<exists>book rest w1.
        search_books
          (empty_world 0 (always (Response 200 (JObj
             [(''docs'', JArr [JObj [(''key'', JStr ''OL1W''), (''title'', JStr ''The Hobbit'')]])]))))
          id ''hobbit'' 1 None = (Inr (JArr (JObj book # rest)), w1)
        \<and> author_of book = Inr (JStr ''Unknown Author''))
   \<and> fst (create_reading_lesson (empty_world 0 (always (Response 200 (JArr []))))
          id ''hobbit'' 6) = Inl AttributeError
   \<and> fst (create_reading_lesson
          (empty_world 0 (always (Response 200 (JObj
             [(''docs'', JArr [JObj [(''key'', JStr ''/works/OL45883W''),
                                     (''title'', JStr ''The Hobbit'')]])]))))
          id ''hobbit'' 6) = Inl FileNotFoundError
   \<and> fst (create_reading_lesson
          (empty_world 0 (always (Response 200 (JObj
             [(''docs'', JArr [JObj [(''key'', JStr ''OL1W''), (''author_name'', JArr [])]])]))))
          id ''hobbit'' 6) = Inl IndexError"
proof -
  let ?four = "JArr [JObj [], JObj [], JObj [], JObj []]"
  let ?A = "empty_world 0 (always (Response 200 ?four))"
  let ?E = "empty_world 0 (always TransportError)"
  let ?K = "empty_world 0 (always (Response 200 (JArr [JInt 1])))"
  let ?X = "empty_world 0 (\<lambda>r. if url r = khan_base_url @ ''/exercises''
                                then Response 200 (JArr [JInt 1]) else TransportError)"
  let ?N = "empty_world 0 (always (Response 200 (JObj [(''docs'', JArr [])])))"
  let ?book = "[(''key'', JStr ''OL1W''), (''title'', JStr ''The Hobbit'')]"
  let ?B = "empty_world 0 (always (Response 200 (JObj [(''docs'', JArr [JObj ?book])])))"
  let ?S = "empty_world 0 (always (Response 200 (JArr [])))"
  let ?vbook = "[(''key'', JStr ''/works/OL45883W''), (''title'', JStr ''The Hobbit'')]"
  let ?V = "empty_world 0 (always (Response 200 (JObj [(''docs'', JArr [JObj ?vbook])])))"
  let ?ibook = "[(''key'', JStr ''OL1W''), (''author_name'', JArr [])]"
  let ?I = "empty_world 0 (always (Response 200 (JObj [(''docs'', JArr [JObj ?ibook])])))"
  let ?A1 = "?A\<lparr>requests := [search_videos_request ''math'' (Some 3) 20]\<rparr>"
  let ?A2 = "?A\<lparr>requests := [search_videos_request ''math'' (Some 3) 20,
                                exercises_request ''math'' (Some 3)]\<rparr>"
  let ?v = "JObj
              [(''id'', JNull), (''title'', JNull), (''description'', JNull), (''duration'', JNull),
               (''thumbnail'', JNull), (''url'', JNull), (''subject'', JNull),
               (''grade_level'', JNull)]"
  let ?e = "JObj
              [(''id'', JNull), (''title'', JNull), (''description'', JNull), (''type'', JNull),
               (''difficulty'', JNull), (''subject'', JNull)]"
  note K = lesson_drafts [where md5_hexdigest = id and subject = "''math''"
      and grade_level = "Some 3" and topic = "''fractions''"]
  note R = lesson_drafts [where md5_hexdigest = id and level = 6]
  note c2 = conjunct2 [THEN conjunct1]
  note c3 = conjunct2 [THEN conjunct2, THEN conjunct1]
  note c4 = conjunct2 [THEN conjunct2, THEN conjunct2, THEN conjunct1]
  note c5 = conjunct2 [THEN conjunct2, THEN conjunct2, THEN conjunct2, THEN conjunct1]
  note c6 = conjunct2 [THEN conjunct2, THEN conjunct2, THEN conjunct2, THEN conjunct2,
      THEN conjunct1]
  note c7 = conjunct2 [THEN conjunct2, THEN conjunct2, THEN conjunct2, THEN conjunct2,
      THEN conjunct2, THEN conjunct1]
  note c8 = conjunct2 [THEN conjunct2, THEN conjunct2, THEN conjunct2, THEN conjunct2,
      THEN conjunct2, THEN conjunct2, THEN conjunct1]
  note c9 = conjunct2 [THEN conjunct2, THEN conjunct2, THEN conjunct2, THEN conjunct2,
      THEN conjunct2, THEN conjunct2, THEN conjunct2, THEN conjunct1]
  note c10 = conjunct2 [THEN conjunct2, THEN conjunct2, THEN conjunct2, THEN conjunct2,
      THEN conjunct2, THEN conjunct2, THEN conjunct2, THEN conjunct2, THEN conjunct1]
  note c11 = conjunct2 [THEN conjunct2, THEN conjunct2, THEN conjunct2, THEN conjunct2,
      THEN conjunct2, THEN conjunct2, THEN conjunct2, THEN conjunct2, THEN conjunct2]
  have a1: "search_videos ?A id ''math'' (Some 3) 20 = (Inr (JArr [?v, ?v, ?v, ?v]), ?A1)"
    by (simp add: search_videos_def session_get_def process_videos_def dict_get_def world_defs)
  have a2: "get_exercises ?A1 ''math'' (Some 3) = (Inr (JArr [?e, ?e, ?e, ?e]), ?A2)"
    by (simp add: get_exercises_def session_get_def process_exercises_def dict_get_def world_defs)
  have r1: "fst (create_lesson_from_khan ?A id ''math'' (Some 3) ''fractions'')
     = Inr (JObj
          [(''title'', JStr ''Khan Academy - math - fractions''),
           (''subject'', JStr ''math''),
           (''grade_level'', JInt 3),
           (''content_type'', JStr ''khan_academy''),
           (''videos'', JArr (replicate 3 ?v)),
           (''exercises'', JArr (replicate 4 ?e)),
           (''estimated_time'', JInt 30),
           (''xp_value'', JInt 15)])"
    using K [where w = ?A, THEN conjunct1, rule_format, OF conjI [OF a1 a2]]
    by (simp add: eval_nat_numeral)
  have e: "\<forall>r. response_json (net ?E r) = None"
    "files ?E (khan_search_cache_file id ''math'' (Some 3)) = None"
    by (simp_all add: world_defs)
  have r2: "fst (create_lesson_from_khan ?E id ''math'' (Some 3) ''fractions'')
     = Inr (JObj
          [(''title'', JStr ''Khan Academy - math - fractions''),
           (''subject'', JStr ''math''),
           (''grade_level'', JInt 3),
           (''content_type'', JStr ''khan_academy''),
           (''videos'', JArr []),
           (''exercises'', JArr []),
           (''estimated_time'', JInt 30),
           (''xp_value'', JInt 15)])"
    using K [where w = ?E, THEN c2, rule_format, OF conjI [OF e]] by simp
  have r3: "\<exists>videos w1 exercises w2.
        search_videos ?E id ''math'' (Some 3) 20 = (Inr videos, w1)
        \<and> get_exercises w1 ''math'' (Some 3) = (Inr (JArr exercises), w2)
        \<and> py_slice_to videos 3 = Inr (JArr []) \<and> take 5 exercises = []"
    using K [where w = ?E, THEN c3, rule_format, OF r2] by auto
  have k: "search_videos ?K id ''math'' (Some 3) 20
      = (Inl AttributeError, ?K\<lparr>requests := [search_videos_request ''math'' (Some 3) 20]\<rparr>)"
    by (simp add: search_videos_def session_get_def process_videos_def world_defs)
  have r4: "fst (create_lesson_from_khan ?K id ''math'' (Some 3) ''fractions'') = Inl AttributeError"
    using K [where w = ?K, THEN c4, rule_format, OF k] by simp
  let ?X1 = "logger_error (?X\<lparr>requests := [search_videos_request ''math'' (Some 3) 20]\<rparr>)
        ''Khan Academy API error''"
  have x1: "search_videos ?X id ''math'' (Some 3) 20 = (Inr (JArr []), ?X1)"
    by (simp add: search_videos_def session_get_def get_cached_videos_def logger_error_def
          search_videos_request_def khan_base_url_def world_defs)
  have x2: "get_exercises ?X1 ''math'' (Some 3)
      = (Inl AttributeError, ?X1\<lparr>requests := requests ?X1 @ [exercises_request ''math'' (Some 3)]\<rparr>)"
    by (simp add: get_exercises_def session_get_def process_exercises_def logger_error_def
          exercises_request_def khan_base_url_def world_defs)
  have r5: "fst (create_lesson_from_khan ?X id ''math'' (Some 3) ''fractions'') = Inl AttributeError"
    using K [where w = ?X, THEN c5, rule_format, OF conjI [OF x1 x2]] by simp
  let ?N1 = "json_dump (?N\<lparr>requests := [search_books_request ''The Hobbit'' 1]\<rparr>)
               (books_cache_file id ''The Hobbit'') (JObj [(''docs'', JArr [])])"
  have n: "search_books ?N id ''The Hobbit'' 1 None = (Inr (JArr []), ?N1)"
    by (simp add: search_books_def session_get_def fresh_def world_defs write_defs file_names)
  have r6: "fst (create_reading_lesson ?N id ''The Hobbit'' 6) = Inr JNull"
    using R [where w = ?N and book_title = "''The Hobbit''", THEN c6, rule_format, OF conjI [OF n]]
    by simp
  let ?B1 = "json_dump (?B\<lparr>requests := [search_books_request ''hobbit'' 1]\<rparr>)
               (books_cache_file id ''hobbit'') (JObj [(''docs'', JArr [JObj ?book])])"
  let ?B2 = "json_dump (?B1\<lparr>requests := requests ?B1 @ [book_details_request ''OL1W'']\<rparr>)
               (book_cache_file ''OL1W'') (JObj [(''docs'', JArr [JObj ?book])])"
  have b1: "search_books ?B id ''hobbit'' 1 None = (Inr (JArr (JObj ?book # [])), ?B1)"
    by (simp add: search_books_def session_get_def fresh_def world_defs write_defs file_names)
  have b2: "get_book_details ?B1 (py_str (dict_get ?book ''key'' (JStr [])))
      = (Inr (JObj [(''docs'', JArr [JObj ?book])]), ?B2)"
    by (simp add: get_book_details_def session_get_def fresh_def json_dump_def dict_get_def
          world_defs write_defs file_names)
  have b3: "author_of ?book = Inr (JStr ''Unknown Author'')"
    by (simp add: author_of_def)
  have r7: "fst (create_reading_lesson ?B id ''hobbit'' 6)
     = Inr (JObj
          [(''title'', JStr ''Reading: The Hobbit''),
           (''subject'', JStr ''reading''),
           (''grade_level'', JInt 6),
           (''content_type'', JStr ''openlibrary''),
           (''book_data'', JObj ?book),
           (''book_details'', JObj [(''docs'', JArr [JObj ?book])]),
           (''text_content'', JStr ''Read and discuss The Hobbit by Unknown Author.''),
           (''estimated_time'', JInt 45),
           (''xp_value'', JInt 30)])"
    using R [where w = ?B and book_title = "''hobbit''", THEN c7, rule_format,
        OF conjI [OF b1 conjI [OF b2 b3]]]
    by (simp add: dict_get_def)
  have r8: "\<exists>book rest w1.
        search_books ?B id ''hobbit'' 1 None = (Inr (JArr (JObj book # rest)), w1)
        \<and> author_of book = Inr (JStr ''Unknown Author'')"
    using R [where w = ?B and book_title = "''hobbit''", THEN c8, rule_format,
        OF conjI [OF r7]]
    by (auto simp add: b1 b3)
  let ?S1 = "json_dump (?S\<lparr>requests := [search_books_request ''hobbit'' 1]\<rparr>)
               (books_cache_file id ''hobbit'') (JArr [])"
  have s: "search_books ?S id ''hobbit'' 1 None = (Inl AttributeError, ?S1)"
    by (simp add: search_books_def session_get_def fresh_def world_defs write_defs file_names)
  have r9: "fst (create_reading_lesson ?S id ''hobbit'' 6) = Inl AttributeError"
    using R [where w = ?S and book_title = "''hobbit''", THEN c9, rule_format, OF s] by simp
  let ?V1 = "json_dump (?V\<lparr>requests := [search_books_request ''hobbit'' 1]\<rparr>)
               (books_cache_file id ''hobbit'') (JObj [(''docs'', JArr [JObj ?vbook])])"
  have v1: "search_books ?V id ''hobbit'' 1 None = (Inr (JArr (JObj ?vbook # [])), ?V1)"
    by (simp add: search_books_def session_get_def fresh_def world_defs write_defs file_names)
  have v2: "get_book_details ?V1 (py_str (dict_get ?vbook ''key'' (JStr [])))
      = (Inl FileNotFoundError,
         ?V1\<lparr>requests := requests ?V1 @ [book_details_request ''/works/OL45883W'']\<rparr>)"
    by (simp add: get_book_details_def session_get_def fresh_def json_dump_def dict_get_def
          world_defs write_defs file_names)
  have r10: "fst (create_reading_lesson ?V id ''hobbit'' 6) = Inl FileNotFoundError"
    using R [where w = ?V and book_title = "''hobbit''", THEN c10, rule_format,
        OF conjI [OF v1 v2]]
    by simp
  let ?I1 = "json_dump (?I\<lparr>requests := [search_books_request ''hobbit'' 1]\<rparr>)
               (books_cache_file id ''hobbit'') (JObj [(''docs'', JArr [JObj ?ibook])])"
  let ?I2 = "json_dump (?I1\<lparr>requests := requests ?I1 @ [book_details_request ''OL1W'']\<rparr>)
               (book_cache_file ''OL1W'') (JObj [(''docs'', JArr [JObj ?ibook])])"
  have i1: "search_books ?I id ''hobbit'' 1 None = (Inr (JArr (JObj ?ibook # [])), ?I1)"
    by (simp add: search_books_def session_get_def fresh_def world_defs write_defs file_names)
  have i2: "get_book_details ?I1 (py_str (dict_get ?ibook ''key'' (JStr [])))
      = (Inr (JObj [(''docs'', JArr [JObj ?ibook])]), ?I2)"
    by (simp add: get_book_details_def session_get_def fresh_def json_dump_def dict_get_def
          world_defs write_defs file_names)
  have i3: "author_of ?ibook = Inl IndexError"
    by (simp add: author_of_def)
  have r11: "fst (create_reading_lesson ?I id ''hobbit'' 6) = Inl IndexError"
    using R [where w = ?I and book_title = "''hobbit''", THEN c11, rule_format,
        OF conjI [OF i1 conjI [OF i2 i3]]]
    by simp
  show ?thesis
    using r1 r2 r3 r4 r5 r6 r7 r8 r9 r10 r11 by (intro conjI)
qed

text \<open>
  Claim C8 as stated fails for \<^verbatim>\<open>create_reading_lesson\<close>: when the search finds no book, it
  returns \<^verbatim>\<open>None\<close>, not a draft.
\<close>

theorem reading_lesson_absent_when_no_book:
  "fst (search_books (empty_world 0 (always (Response 200 (JObj [(''docs'', JArr [])]))))
          id ''The Hobbit'' 1 None) = Inr (JArr [])
   \<and> fst (create_reading_lesson (empty_world 0 (always (Response 200 (JObj [(''docs'', JArr [])]))))
          id ''The Hobbit'' 6) = Inr JNull"
  by (simp add: create_reading_lesson_def search_books_def session_get_def
        fresh_def world_defs write_defs file_names)

section \<open>The fabricated definition\<close>

text \<open>
  Claim C9, as it holds of the code. The built-in definition is, for every word, a dict
  with \<^verbatim>\<open>word\<close> and a non-empty \<^verbatim>\<open>results\<close> list. On a cache miss, when the client has no
  API key or the fetch fails, \<^verbatim>\<open>get_word_definition\<close> returns it, and
  \<^verbatim>\<open>create_vocabulary_lesson\<close> returns a lesson around it (estimated time 15, XP value
  10). On the other paths the cached or fetched payload is returned as it is; whenever
  \<^verbatim>\<open>get_word_definition\<close> returns a false value (\<^verbatim>\<open>None\<close>, an empty dict),
  \<^verbatim>\<open>create_vocabulary_lesson\<close> returns \<^verbatim>\<open>None\<close>.
\<close>

theorem fabricated_definition_on_miss:
  "(\<exists>kvs rs. get_basic_definition word = JObj kvs \<and> map_of kvs ''word'' \<noteq> None
       \<and> map_of kvs ''results'' = Some (JArr rs) \<and> rs \<noteq> [])
   \<and> (fresh w (word_cache_file word) 30 = None
        \<and> (\<not> has_api_key api_key \<or> response_json (net w (word_request word)) = None) \<longrightarrow>
       fst (get_word_definition w api_key word) = Inr (get_basic_definition word)
       \<and> (\<exists>title_text text.
            fst (create_vocabulary_lesson w str_title api_key word grade_level) = Inr (JObj
              [(''title'', title_text),
               (''subject'', JStr ''vocabulary''),
               (''grade_level'', JInt grade_level),
               (''content_type'', JStr ''wordsapi''),
               (''word'', JStr word),
               (''word_data'', get_basic_definition word),
               (''text_content'', text),
               (''estimated_time'', JInt 15),
               (''xp_value'', JInt 10)])))
   \<and> (\<forall>v. fst (get_word_definition w api_key word) = Inr v \<and> \<not> truthy v \<longrightarrow>
         fst (create_vocabulary_lesson w str_title api_key word grade_level) = Inr JNull)"
proof (intro conjI impI allI)
  show "\<exists>kvs rs. get_basic_definition word = JObj kvs \<and> map_of kvs ''word'' \<noteq> None
       \<and> map_of kvs ''results'' = Some (JArr rs) \<and> rs \<noteq> []"
    by (rule get_basic_definition_shape)
next
  assume h: "fresh w (word_cache_file word) 30 = None
        \<and> (\<not> has_api_key api_key \<or> response_json (net w (word_request word)) = None)"
  then have r: "fst (get_word_definition w api_key word) = Inr (get_basic_definition word)"
    by (cases "has_api_key api_key")
       (auto simp add: get_word_definition_failed get_word_definition_no_key)
  then show "fst (get_word_definition w api_key word) = Inr (get_basic_definition word)" .
  from r show "\<exists>title_text text.
            fst (create_vocabulary_lesson w str_title api_key word grade_level) = Inr (JObj
              [(''title'', title_text),
               (''subject'', JStr ''vocabulary''),
               (''grade_level'', JInt grade_level),
               (''content_type'', JStr ''wordsapi''),
               (''word'', JStr word),
               (''word_data'', get_basic_definition word),
               (''text_content'', text),
               (''estimated_time'', JInt 15),
               (''xp_value'', JInt 10)])"
    by (cases "get_word_definition w api_key word")
       (simp add: create_vocabulary_lesson_def truthy_basic_definition)
next
  fix v assume "fst (get_word_definition w api_key word) = Inr v \<and> \<not> truthy v"
  then show "fst (create_vocabulary_lesson w str_title api_key word grade_level) = Inr JNull"
    by (cases "get_word_definition w api_key word") (simp add: create_vocabulary_lesson_def)
qed

theorem fabricated_definition_on_miss_witness:
  "fst (get_word_definition (empty_world 0 (always TransportError)) (Some ''key'') ''zebra'')
     = Inr (JObj [(''word'', JStr ''zebra''),
                  (''results'', JArr [JObj [(''definition'', JStr ''A word meaning related to zebra'')]])])
   \<and> fst (get_word_definition (empty_world 0 (always (Response 200 (JObj [])))) None ''zebra'')
     = Inr (get_basic_definition ''zebra'')
   \<and> (\<exists>title_text text.
        fst (create_vocabulary_lesson (empty_world 0 (always TransportError)) sample_title (Some ''key'') ''zebra'' 6)
          = Inr (JObj
              [(''title'', title_text),
               (''subject'', JStr ''vocabulary''),
               (''grade_level'', JInt 6),
               (''content_type'', JStr ''wordsapi''),
               (''word'', JStr ''zebra''),
               (''word_data'', get_basic_definition ''zebra''),
               (''text_content'', text),
               (''estimated_time'', JInt 15),
               (''xp_value'', JInt 10)]))
   \<and> fst (create_vocabulary_lesson (empty_world 0 (always (Response 200 (JObj []))))
            sample_title (Some ''key'') ''zebra'' 6) = Inr JNull"
proof -
  let ?E = "empty_world 0 (always TransportError)"
  let ?D = "empty_world 0 (always (Response 200 (JObj [])))"
  have f: "fresh ?E (word_cache_file ''zebra'') 30 = None"
    "fresh ?D (word_cache_file ''zebra'') 30 = None"
    "response_json (net ?E (word_request ''zebra'')) = None"
    by (simp_all add: world_defs fresh_def)
  have d: "fst (get_word_definition ?D (Some ''key'') ''zebra'') = Inr (JObj [])"
    by (simp add: get_word_definition_def session_get_def world_defs fresh_def write_defs
          file_names)
  have b: "get_basic_definition ''zebra''
      = JObj [(''word'', JStr ''zebra''),
              (''results'', JArr [JObj [(''definition'', JStr ''A word meaning related to zebra'')]])]"
    by (simp add: get_basic_definition_def dict_get_def basic_definitions_def definition_of_def
          file_names)
  note T1 = fabricated_definition_on_miss
      [where w = ?E and api_key = "Some ''key''" and word = "''zebra''" and grade_level = 6
         and str_title = sample_title]
  note T2 = fabricated_definition_on_miss
      [where w = ?D and api_key = None and word = "''zebra''" and grade_level = 6
         and str_title = sample_title]
  note T3 = fabricated_definition_on_miss
      [where w = ?D and api_key = "Some ''key''" and word = "''zebra''" and grade_level = 6
         and str_title = sample_title,
       THEN conjunct2, THEN conjunct2, rule_format, of "JObj []"]
  show ?thesis
    using T1 T2 T3 f d by (simp add: b)
qed

text \<open>
  Claim C9 as stated fails when the service answers 200 with the JSON value \<^verbatim>\<open>null\<close>:
  \<^verbatim>\<open>get_word_definition\<close> returns \<^verbatim>\<open>None\<close>, and so does \<^verbatim>\<open>create_vocabulary_lesson\<close>.
\<close>

theorem null_payload_gives_no_lesson:
  "fst (get_word_definition (empty_world 0 (always (Response 200 JNull))) (Some ''key'') ''zebra'')
     = Inr JNull
   \<and> fst (create_vocabulary_lesson (empty_world 0 (always (Response 200 JNull)))
            sample_title (Some ''key'') ''zebra'' 6) = Inr JNull"
  by (simp add: create_vocabulary_lesson_def get_word_definition_def session_get_def
        fresh_def write_defs world_defs file_names)

section \<open>Letter case of the word cache key\<close>



end
